theory Spec2Isabelle
  imports Complex_Main "HOL-Library.Word"
begin

section \<open>Error taxonomy (errors.go)\<close>

text \<open>
  A Go \<open>error\<close> interface value is modelled as \<open>error option\<close>: \<open>None\<close> is \<open>nil\<close>.
  The constructor \<open>SdkError\<close> is the struct \<open>*clamav.Error\<close> with its four fields; the
  other constructors are the errors of the Go runtime and of grpc-go that the clients
  inspect: a gRPC status error (\<open>status.Error(code, msg)\<close>), the two context sentinels,
  \<open>io.EOF\<close>, \<open>*url.Error\<close>, \<open>*net.OpError\<close>, \<open>*net.DNSError\<close> (with its \<open>IsTimeout\<close>
  field), and \<open>Wrap\<close>, a plain error with a message and an optional wrapped error
  (\<open>errors.New(msg)\<close> is \<open>Wrap msg None\<close>, \<open>fmt.Errorf("msg: %w", e)\<close> is
  \<open>Wrap msg (Some e)\<close>).
\<close>

type_synonym byte = "8 word"

type_synonym code = "32 word"

datatype error =
    SdkError (Code: string) (Message: string) (StatusCode: int) (Cause: "error option")
  | GRPCStatus code string
  | context_Canceled
  | context_DeadlineExceeded
  | io_EOF
  | url_Error error
  | net_OpError error
  | net_DNSError bool
  | Wrap string "error option"

definition CodeConnection :: string where
  "CodeConnection = ''connection_error''"

definition CodeTimeout :: string where
  "CodeTimeout = ''timeout''"

definition CodeValidation :: string where
  "CodeValidation = ''validation_error''"

definition CodeService :: string where
  "CodeService = ''service_error''"

text \<open>
  The method \<open>Unwrap\<close> of each error type. For \<open>*clamav.Error\<close> it returns the field
  \<open>Cause\<close>; \<open>*url.Error\<close> and \<open>*net.OpError\<close> return their inner error; a status error,
  the sentinels and a DNS error wrap nothing.
\<close>

fun Unwrap :: "error \<Rightarrow> error option" where
  "Unwrap (SdkError c m s cause) = cause"
| "Unwrap (url_Error e) = Some e"
| "Unwrap (net_OpError e) = Some e"
| "Unwrap (Wrap m cause) = cause"
| "Unwrap (GRPCStatus c m) = None"
| "Unwrap context_Canceled = None"
| "Unwrap context_DeadlineExceeded = None"
| "Unwrap io_EOF = None"
| "Unwrap (net_DNSError t) = None"

text \<open>
  \<open>errors.As(err, &e)\<close> with \<open>e\<close> of type \<open>*clamav.Error\<close>: the first error of that type
  on the \<open>Unwrap\<close> chain of \<open>err\<close>, starting with \<open>err\<close> itself; \<open>None\<close> when the chain
  ends without one (and for \<open>nil\<close>).
\<close>

fun As_Error :: "error option \<Rightarrow> error option" where
  "As_Error None = None"
| "As_Error (Some (SdkError c m s cause)) = Some (SdkError c m s cause)"
| "As_Error (Some (url_Error e)) = As_Error (Some e)"
| "As_Error (Some (net_OpError e)) = As_Error (Some e)"
| "As_Error (Some (Wrap m cause)) = As_Error cause"
| "As_Error (Some (GRPCStatus c m)) = None"
| "As_Error (Some context_Canceled) = None"
| "As_Error (Some context_DeadlineExceeded) = None"
| "As_Error (Some io_EOF) = None"
| "As_Error (Some (net_DNSError t)) = None"

definition NewConnectionError :: "string \<Rightarrow> error option \<Rightarrow> error" where
  "NewConnectionError msg cause = SdkError CodeConnection msg 0 cause"

definition NewTimeoutError :: "string \<Rightarrow> error option \<Rightarrow> error" where
  "NewTimeoutError msg cause = SdkError CodeTimeout msg 0 cause"

definition NewValidationError :: "string \<Rightarrow> error option \<Rightarrow> error" where
  "NewValidationError msg cause = SdkError CodeValidation msg 0 cause"

definition NewServiceError :: "string \<Rightarrow> int \<Rightarrow> error option \<Rightarrow> error" where
  "NewServiceError msg statusCode cause = SdkError CodeService msg statusCode cause"

definition IsConnectionError :: "error option \<Rightarrow> bool" where
  "IsConnectionError err =
     (case As_Error err of Some e \<Rightarrow> Code e = CodeConnection | None \<Rightarrow> False)"

definition IsTimeoutError :: "error option \<Rightarrow> bool" where
  "IsTimeoutError err =
     (case As_Error err of Some e \<Rightarrow> Code e = CodeTimeout | None \<Rightarrow> False)"

definition IsValidationError :: "error option \<Rightarrow> bool" where
  "IsValidationError err =
     (case As_Error err of Some e \<Rightarrow> Code e = CodeValidation | None \<Rightarrow> False)"

definition IsServiceError :: "error option \<Rightarrow> bool" where
  "IsServiceError err =
     (case As_Error err of Some e \<Rightarrow> Code e = CodeService | None \<Rightarrow> False)"

text \<open>
  Two notions used to state the wrapping contract. \<open>is_Sdk e\<close>: the error is a
  \<open>*clamav.Error\<close>. \<open>decorates w e\<close>: the \<open>Unwrap\<close> chain of \<open>w\<close> reaches \<open>e\<close> and every
  error on the way before \<open>e\<close> is not a \<open>*clamav.Error\<close>. \<open>foreign w\<close>: no error on the
  \<open>Unwrap\<close> chain of \<open>w\<close> is a \<open>*clamav.Error\<close>.
\<close>

fun is_Sdk :: "error \<Rightarrow> bool" where
  "is_Sdk (SdkError c m s cause) = True"
| "is_Sdk e = False"

fun decorates :: "error \<Rightarrow> error \<Rightarrow> bool" where
  "decorates (SdkError c m s cause) e = (SdkError c m s cause = e)"
| "decorates (url_Error w) e = (url_Error w = e \<or> decorates w e)"
| "decorates (net_OpError w) e = (net_OpError w = e \<or> decorates w e)"
| "decorates (Wrap m None) e = (Wrap m None = e)"
| "decorates (Wrap m (Some w)) e = (Wrap m (Some w) = e \<or> decorates w e)"
| "decorates w e = (w = e)"

fun foreign :: "error \<Rightarrow> bool" where
  "foreign (SdkError c m s cause) = False"
| "foreign (url_Error w) = foreign w"
| "foreign (net_OpError w) = foreign w"
| "foreign (Wrap m None) = True"
| "foreign (Wrap m (Some w)) = foreign w"
| "foreign w = True"

section \<open>Result model\<close>

record ScanResult =
  sr_Status :: string
  sr_Message :: string
  sr_ScanTime :: real
  sr_Filename :: string

definition IsInfected :: "ScanResult \<Rightarrow> bool" where
  "IsInfected r = (sr_Status r = ''FOUND'')"

definition IsClean :: "ScanResult \<Rightarrow> bool" where
  "IsClean r = (sr_Status r = ''OK'')"

record HealthCheckResult =
  Healthy :: bool
  hc_Message :: string

record FileInput =
  Data :: "byte list"
  file_Filename :: string

section \<open>Formatting\<close>

text \<open>The verb \<open>%d\<close> of \<open>fmt.Sprintf\<close> on an \<open>int\<close>: decimal digits, with a sign if negative.\<close>

fun digits :: "nat \<Rightarrow> string" where
  "digits n = (if n < 10 then [char_of (48 + n)]
               else digits (n div 10) @ [char_of (48 + n mod 10)])"

definition fmt_d :: "int \<Rightarrow> string" where
  "fmt_d i = (if i < 0 then CHR ''-'' # digits (nat (- i)) else digits (nat i))"

section \<open>REST client (client.go, package clamav)\<close>

text \<open>
  \<open>io.Reader\<close>: the bytes it delivers and the error that ends it (\<open>None\<close>: it ends with
  \<open>io.EOF\<close>). \<open>bytes.NewReader(data)\<close> delivers \<open>data\<close> and ends with \<open>io.EOF\<close>.
\<close>

record reader =
  rd_bytes :: "byte list"
  rd_err :: "error option"

definition bytes_NewReader :: "byte list \<Rightarrow> reader" where
  "bytes_NewReader data = \<lparr>rd_bytes = data, rd_err = None\<rparr>"

text \<open>
  A request body: none, the multipart form that \<open>ScanReader\<close> writes into its buffer
  (boundary, form field name, file name, file content), or a reader handed to the
  HTTP stack as it is.
\<close>

datatype body =
    NoBody
  | Multipart string string string "byte list"
  | Stream reader

text \<open>
  \<open>Header\<close> lists the calls of \<open>Header.Set\<close> on the request, in order.
\<close>

record request =
  Method :: string
  req_URL :: string
  Header :: "(string \<times> string) list"
  Body :: body
  ContentLength :: int

text \<open>
  The decoded body of an error response, \<open>struct { Status, Message string }\<close>.
\<close>

record ErrorBody =
  eb_Status :: string
  eb_Message :: string

text \<open>
  A response body is represented by what \<open>json.NewDecoder(resp.Body).Decode\<close> yields
  on it for each of the three structs the client decodes into: the error body, the scan
  result, and the health-check body \<open>struct { Message string }\<close>.
\<close>

record json_body =
  as_error :: "error + ErrorBody"
  as_scan :: "error + ScanResult"
  as_health :: "error + string"

record response =
  resp_StatusCode :: int
  resp_Body :: json_body

record URL =
  Scheme :: string
  Host :: string

text \<open>
  \<open>*http.Client\<close>: its \<open>Timeout\<close> field and its method \<open>Do\<close>, one round trip.
\<close>

record http_Client =
  Timeout :: int
  Do :: "request \<Rightarrow> error + response"

text \<open>
  The functions of the Go standard library that the client calls and that are no part
  of this repository are parameters: \<open>url.Parse\<close>, \<open>http.NewRequestWithContext\<close> (the
  context is part of what it and \<open>Do\<close> see; it is not modelled apart), the boundary
  that \<open>multipart.NewWriter\<close> draws, and the round trip of an \<open>http.Client\<close> that has
  no transport of its own.
\<close>

record stdlib =
  url_Parse :: "string \<Rightarrow> error + URL"
  http_NewRequestWithContext :: "string \<Rightarrow> string \<Rightarrow> body \<Rightarrow> error + request"
  multipart_boundary :: string
  http_DefaultDo :: "request \<Rightarrow> error + response"

text \<open>
  The struct \<open>Client\<close>. The field \<open>httpClient\<close> has type \<open>http_Client option\<close> while
  \<open>NewClient\<close> applies the options (\<open>None\<close> is \<open>nil\<close>) and type \<open>http_Client\<close> in the
  client that \<open>NewClient\<close> returns. \<open>headers\<close> lists the entries of the map in the order
  in which \<open>range\<close> visits them. Durations are in nanoseconds.
\<close>

record 'h Client =
  baseURL :: string
  httpClient :: 'h
  timeout :: int
  headers :: "(string \<times> string) list"

definition defaultTimeout :: int where
  "defaultTimeout = 30 * 1000000000"

definition pathHealthCheck :: string where
  "pathHealthCheck = ''/api/health-check''"

definition pathScan :: string where
  "pathScan = ''/api/scan''"

definition pathStreamScan :: string where
  "pathStreamScan = ''/api/stream-scan''"

text \<open>options.go: the three options of the REST client.\<close>

datatype ClientOption =
    WithHTTPClient "http_Client option"
  | WithTimeout int
  | WithHeaders "(string \<times> string) list option"

fun apply_option :: "ClientOption \<Rightarrow> (http_Client option) Client \<Rightarrow> (http_Client option) Client" where
  "apply_option (WithHTTPClient hc) c = c\<lparr>httpClient := hc\<rparr>"
| "apply_option (WithTimeout d) c = (if d > 0 then c\<lparr>timeout := d\<rparr> else c)"
| "apply_option (WithHeaders None) c = c\<lparr>headers := []\<rparr>"
| "apply_option (WithHeaders (Some h)) c = c\<lparr>headers := h\<rparr>"

text \<open>\<open>strings.TrimRight(s, "/")\<close>: all trailing slashes removed.\<close>

definition TrimRight_slash :: "string \<Rightarrow> string" where
  "TrimRight_slash s = rev (dropWhile (\<lambda>c. c = CHR ''/'') (rev s))"

definition NewClient :: "stdlib \<Rightarrow> string \<Rightarrow> ClientOption list \<Rightarrow> error + http_Client Client" where
  "NewClient std baseURL0 opts =
     (let baseURL1 = TrimRight_slash baseURL0 in
      case url_Parse std baseURL1 of
        Inl err \<Rightarrow> Inl (NewValidationError (''invalid base URL: '' @ baseURL1) (Some err))
      | Inr u \<Rightarrow>
          if Scheme u = [] \<or> Host u = [] then
            Inl (NewValidationError (''base URL must include scheme and host: '' @ baseURL1) None)
          else
            let c = fold apply_option opts
                      \<lparr>baseURL = baseURL1, httpClient = None, timeout = defaultTimeout, headers = []\<rparr>
            in Inr \<lparr>baseURL = baseURL c,
                    httpClient = (case httpClient c of
                                    None \<Rightarrow> \<lparr>Timeout = timeout c, Do = http_DefaultDo std\<rparr>
                                  | Some hc \<Rightarrow> hc),
                    timeout = timeout c,
                    headers = headers c\<rparr>)"

definition newRequest :: "stdlib \<Rightarrow> http_Client Client \<Rightarrow> string \<Rightarrow> string \<Rightarrow> body \<Rightarrow> error + request" where
  "newRequest std c method path b =
     (case http_NewRequestWithContext std method (baseURL c @ path) b of
        Inl err \<Rightarrow> Inl (NewConnectionError ''failed to create request'' (Some err))
      | Inr req \<Rightarrow> Inr (req\<lparr>Header := Header req @ headers c\<rparr>))"

text \<open>
  The method \<open>Timeout()\<close> as the standard library defines it on the errors of the
  model; an error type without the method counts as \<open>False\<close>.
\<close>

fun Timeout_method :: "error \<Rightarrow> bool" where
  "Timeout_method context_DeadlineExceeded = True"
| "Timeout_method (url_Error e) = Timeout_method e"
| "Timeout_method (net_OpError e) = Timeout_method e"
| "Timeout_method (net_DNSError t) = t"
| "Timeout_method e = False"

text \<open>\<open>errors.Is(err, target)\<close> for a sentinel \<open>target\<close>.\<close>

fun errors_Is :: "error option \<Rightarrow> error \<Rightarrow> bool" where
  "errors_Is None t = False"
| "errors_Is (Some (SdkError c m s cause)) t = (SdkError c m s cause = t \<or> errors_Is cause t)"
| "errors_Is (Some (url_Error e)) t = (url_Error e = t \<or> errors_Is (Some e) t)"
| "errors_Is (Some (net_OpError e)) t = (net_OpError e = t \<or> errors_Is (Some e) t)"
| "errors_Is (Some (Wrap m cause)) t = (Wrap m cause = t \<or> errors_Is cause t)"
| "errors_Is (Some e) t = (e = t)"

text \<open>\<open>errors.As\<close> with a target of type \<open>*url.Error\<close>, \<open>*net.OpError\<close>, \<open>*net.DNSError\<close>.\<close>

fun As_url_Error :: "error option \<Rightarrow> error option" where
  "As_url_Error None = None"
| "As_url_Error (Some (url_Error e)) = Some e"
| "As_url_Error (Some (SdkError c m s cause)) = As_url_Error cause"
| "As_url_Error (Some (net_OpError e)) = As_url_Error (Some e)"
| "As_url_Error (Some (Wrap m cause)) = As_url_Error cause"
| "As_url_Error (Some e) = None"

fun As_net_OpError :: "error option \<Rightarrow> bool" where
  "As_net_OpError None = False"
| "As_net_OpError (Some (net_OpError e)) = True"
| "As_net_OpError (Some (SdkError c m s cause)) = As_net_OpError cause"
| "As_net_OpError (Some (url_Error e)) = As_net_OpError (Some e)"
| "As_net_OpError (Some (Wrap m cause)) = As_net_OpError cause"
| "As_net_OpError (Some e) = False"

fun As_net_DNSError :: "error option \<Rightarrow> bool" where
  "As_net_DNSError None = False"
| "As_net_DNSError (Some (net_DNSError t)) = True"
| "As_net_DNSError (Some (SdkError c m s cause)) = As_net_DNSError cause"
| "As_net_DNSError (Some (url_Error e)) = As_net_DNSError (Some e)"
| "As_net_DNSError (Some (net_OpError e)) = As_net_DNSError (Some e)"
| "As_net_DNSError (Some (Wrap m cause)) = As_net_DNSError cause"
| "As_net_DNSError (Some e) = False"

definition classifyTransportError :: "error \<Rightarrow> error" where
  "classifyTransportError err =
     (if err = context_Canceled then NewTimeoutError ''request canceled'' (Some err)
      else if err = context_DeadlineExceeded then NewTimeoutError ''request timed out'' (Some err)
      else case (case As_url_Error (Some err) of
                   None \<Rightarrow> None
                 | Some inner \<Rightarrow>
                     if Timeout_method inner then Some (NewTimeoutError ''request timed out'' (Some err))
                     else if errors_Is (Some inner) context_Canceled
                       then Some (NewTimeoutError ''request canceled'' (Some err))
                     else if errors_Is (Some inner) context_DeadlineExceeded
                       then Some (NewTimeoutError ''request timed out'' (Some err))
                     else None) of
             Some r \<Rightarrow> r
           | None \<Rightarrow>
               if As_net_OpError (Some err) then NewConnectionError ''connection failed'' (Some err)
               else if As_net_DNSError (Some err)
                 then NewConnectionError ''DNS resolution failed'' (Some err)
               else NewConnectionError ''request failed'' (Some err))"

text \<open>
  The operations return, next to their result, the requests they handed to
  \<open>httpClient.Do\<close>, in order: the network activity of the call.
\<close>

definition do :: "http_Client Client \<Rightarrow> request \<Rightarrow> request list \<times> (error + response)" where
  "do c req =
     ([req], case Do (httpClient c) req of
               Inl err \<Rightarrow> Inl (classifyTransportError err)
             | Inr resp \<Rightarrow> Inr resp)"

definition handleErrorResponse :: "response \<Rightarrow> error" where
  "handleErrorResponse resp =
     (case as_error (resp_Body resp) of
        Inl err \<Rightarrow>
          NewServiceError
            (''unexpected status '' @ fmt_d (resp_StatusCode resp)
               @ '' and failed to decode error response'')
            (resp_StatusCode resp) (Some err)
      | Inr b \<Rightarrow>
          let msg = (if eb_Message b = [] then eb_Status b else eb_Message b) in
          if resp_StatusCode resp = 400 then NewValidationError msg None
          else if resp_StatusCode resp = 413 then NewValidationError msg None
          else if resp_StatusCode resp = 499 then NewTimeoutError msg None
          else if resp_StatusCode resp = 502 then NewServiceError msg (resp_StatusCode resp) None
          else if resp_StatusCode resp = 504 then NewTimeoutError msg None
          else NewServiceError
                 (''unexpected status '' @ fmt_d (resp_StatusCode resp) @ '': '' @ msg)
                 (resp_StatusCode resp) None)"

definition doScan :: "http_Client Client \<Rightarrow> request \<Rightarrow> request list \<times> (error + ScanResult)" where
  "doScan c req =
     (case do c req of
        (net, Inl err) \<Rightarrow> (net, Inl err)
      | (net, Inr resp) \<Rightarrow>
          if resp_StatusCode resp \<noteq> 200 then (net, Inl (handleErrorResponse resp))
          else case as_scan (resp_Body resp) of
                 Inl err \<Rightarrow>
                   (net, Inl (NewServiceError ''failed to decode scan response''
                                (resp_StatusCode resp) (Some err)))
               | Inr result \<Rightarrow> (net, Inr result))"

definition HealthCheck :: "stdlib \<Rightarrow> http_Client Client \<Rightarrow> request list \<times> (error + HealthCheckResult)" where
  "HealthCheck std c =
     (case newRequest std c ''GET'' pathHealthCheck NoBody of
        Inl err \<Rightarrow> ([], Inl err)
      | Inr req \<Rightarrow>
          (case do c req of
             (net, Inl err) \<Rightarrow> (net, Inl err)
           | (net, Inr resp) \<Rightarrow>
               (case as_health (resp_Body resp) of
                  Inl err \<Rightarrow>
                    (net, Inl (NewServiceError ''failed to decode health check response''
                                 (resp_StatusCode resp) (Some err)))
                | Inr message \<Rightarrow>
                    (net, Inr \<lparr>Healthy = (resp_StatusCode resp = 200 \<and> message = ''ok''),
                               hc_Message = message\<rparr>))))"

text \<open>
  \<open>ScanReader\<close>. Writing the form into a \<open>bytes.Buffer\<close> cannot fail, so of the three
  Validation returns only the one after \<open>io.Copy\<close> is reachable: the reader ended with
  an error other than \<open>io.EOF\<close>.
\<close>

definition ScanReader :: "stdlib \<Rightarrow> http_Client Client \<Rightarrow> reader \<Rightarrow> string \<Rightarrow> request list \<times> (error + ScanResult)" where
  "ScanReader std c r filename0 =
     (let filename = (if filename0 = [] then ''file'' else filename0) in
      case rd_err r of
        Some err \<Rightarrow> ([], Inl (NewValidationError ''failed to write file data'' (Some err)))
      | None \<Rightarrow>
          (case newRequest std c ''POST'' pathScan
                  (Multipart (multipart_boundary std) ''file'' filename (rd_bytes r)) of
             Inl err \<Rightarrow> ([], Inl err)
           | Inr req \<Rightarrow>
               doScan c (req\<lparr>Header := Header req @
                  [(''Content-Type'', ''multipart/form-data; boundary='' @ multipart_boundary std)]\<rparr>)))"

definition ScanFile :: "stdlib \<Rightarrow> http_Client Client \<Rightarrow> byte list \<Rightarrow> string \<Rightarrow> request list \<times> (error + ScanResult)" where
  "ScanFile std c data filename = ScanReader std c (bytes_NewReader data) filename"

definition StreamScan :: "stdlib \<Rightarrow> http_Client Client \<Rightarrow> reader \<Rightarrow> int \<Rightarrow> request list \<times> (error + ScanResult)" where
  "StreamScan std c r size' =
     (if size' \<le> 0 then ([], Inl (NewValidationError ''size must be greater than 0'' None))
      else case newRequest std c ''POST'' pathStreamScan (Stream r) of
             Inl err \<Rightarrow> ([], Inl err)
           | Inr req \<Rightarrow>
               doScan c (req\<lparr>Header := Header req @ [(''Content-Type'', ''application/octet-stream'')],
                             ContentLength := size'\<rparr>))"

section \<open>gRPC client (client.go, package grpc)\<close>

text \<open>
  \<open>codes.Code\<close> of grpc-go is a \<open>uint32\<close>; the library names seventeen values.
\<close>

abbreviation codes_OK :: code where "codes_OK \<equiv> 0"
abbreviation codes_Canceled :: code where "codes_Canceled \<equiv> 1"
abbreviation codes_Unknown :: code where "codes_Unknown \<equiv> 2"
abbreviation codes_InvalidArgument :: code where "codes_InvalidArgument \<equiv> 3"
abbreviation codes_DeadlineExceeded :: code where "codes_DeadlineExceeded \<equiv> 4"
abbreviation codes_NotFound :: code where "codes_NotFound \<equiv> 5"
abbreviation codes_AlreadyExists :: code where "codes_AlreadyExists \<equiv> 6"
abbreviation codes_PermissionDenied :: code where "codes_PermissionDenied \<equiv> 7"
abbreviation codes_ResourceExhausted :: code where "codes_ResourceExhausted \<equiv> 8"
abbreviation codes_Unimplemented :: code where "codes_Unimplemented \<equiv> 12"
abbreviation codes_Internal :: code where "codes_Internal \<equiv> 13"
abbreviation codes_Unavailable :: code where "codes_Unavailable \<equiv> 14"
abbreviation codes_DataLoss :: code where "codes_DataLoss \<equiv> 15"
abbreviation codes_Unauthenticated :: code where "codes_Unauthenticated \<equiv> 16"

text \<open>
  \<open>status.FromError(err)\<close> for a non-nil error: the code and the message when \<open>err\<close> is
  a gRPC status error, \<open>None\<close> (the second result \<open>ok\<close> is false) otherwise. An error
  that only wraps a status error counts as no status error here; the properties below
  that speak of status errors speak of errors that are one themselves.
\<close>

fun status_FromError :: "error \<Rightarrow> (code \<times> string) option" where
  "status_FromError (GRPCStatus c m) = Some (c, m)"
| "status_FromError e = None"

definition grpcCodeToHTTP :: "code \<Rightarrow> int" where
  "grpcCodeToHTTP c =
     (if c = codes_OK then 200
      else if c = codes_InvalidArgument then 400
      else if c = codes_Unauthenticated then 401
      else if c = codes_PermissionDenied then 403
      else if c = codes_NotFound then 404
      else if c = codes_AlreadyExists then 409
      else if c = codes_ResourceExhausted then 429
      else if c = codes_Canceled then 499
      else if c = codes_Internal \<or> c = codes_DataLoss \<or> c = codes_Unknown then 500
      else if c = codes_Unimplemented then 501
      else if c = codes_Unavailable then 503
      else if c = codes_DeadlineExceeded then 504
      else 500)"

definition mapGRPCError :: "error option \<Rightarrow> error option" where
  "mapGRPCError err0 =
     (case err0 of
        None \<Rightarrow> None
      | Some err \<Rightarrow>
          (case status_FromError err of
             None \<Rightarrow> Some (NewConnectionError ''gRPC error'' (Some err))
           | Some (c, m) \<Rightarrow>
               if c = codes_InvalidArgument then Some (NewValidationError m (Some err))
               else if c = codes_Internal then Some (NewServiceError m 500 (Some err))
               else if c = codes_DeadlineExceeded then Some (NewTimeoutError m (Some err))
               else if c = codes_Canceled then Some (NewTimeoutError m (Some err))
               else if c = codes_Unavailable then Some (NewConnectionError m (Some err))
               else Some (NewServiceError m (grpcCodeToHTTP c) (Some err))))"

text \<open>The messages of the protocol (package pb).\<close>

record ScanStreamRequest =
  Chunk :: "byte list"
  Filename :: string
  IsLast :: bool

record ScanFileRequest =
  req_Data :: "byte list"
  req_Filename :: string

record ScanResponse =
  pb_Status :: string
  pb_Message :: string
  pb_ScanTime :: real
  pb_Filename :: string

record HealthCheckResponse =
  hr_Status :: string
  hr_Message :: string

definition mapScanResponse :: "ScanResponse \<Rightarrow> ScanResult" where
  "mapScanResponse resp =
     \<lparr>sr_Status = pb_Status resp, sr_Message = pb_Message resp,
      sr_ScanTime = pb_ScanTime resp, sr_Filename = pb_Filename resp\<rparr>"

text \<open>
  The generated stub \<open>pb.ClamAVScannerClient\<close>, by the outcome of its unary calls.
\<close>

record ClamAVScannerClient =
  rpc_HealthCheck :: "error + HealthCheckResponse"
  rpc_ScanFile :: "ScanFileRequest \<Rightarrow> error + ScanResponse"

record grpc_Client =
  scanner :: ClamAVScannerClient
  grpc_timeout :: int
  chunkSize :: int
  maxMessageSize :: int

text \<open>
  The unary operations return, next to their result, the calls they made on the stub.
\<close>

datatype rpc = HealthCheck_call | ScanFile_call ScanFileRequest

definition grpc_HealthCheck :: "grpc_Client \<Rightarrow> rpc list \<times> (error option + HealthCheckResult)" where
  "grpc_HealthCheck c =
     (case rpc_HealthCheck (scanner c) of
        Inl err \<Rightarrow> ([HealthCheck_call], Inl (mapGRPCError (Some err)))
      | Inr resp \<Rightarrow>
          ([HealthCheck_call],
           Inr \<lparr>Healthy = (hr_Status resp = ''healthy''), hc_Message = hr_Message resp\<rparr>))"

definition grpc_ScanFile :: "grpc_Client \<Rightarrow> byte list \<Rightarrow> string \<Rightarrow> rpc list \<times> (error option + ScanResult)" where
  "grpc_ScanFile c data filename =
     (if length data = 0 then
        ([], Inl (mapGRPCError (Some (GRPCStatus codes_InvalidArgument ''file data is required''))))
      else
        let req = \<lparr>req_Data = data, req_Filename = filename\<rparr> in
        case rpc_ScanFile (scanner c) req of
          Inl err \<Rightarrow> ([ScanFile_call req], Inl (mapGRPCError (Some err)))
        | Inr resp \<Rightarrow> ([ScanFile_call req], Inr (mapScanResponse resp)))"

text \<open>
  A stream seen from the sender, the interface \<open>chunkSender\<close>: the messages handed to
  \<open>Send\<close> so far, and what the coming calls of \<open>Send\<close> return (when the list is used
  up, \<open>Send\<close> returns \<open>nil\<close>).
\<close>

record stream =
  sent :: "ScanStreamRequest list"
  outcomes :: "error option list"

definition Send :: "stream \<Rightarrow> ScanStreamRequest \<Rightarrow> error option \<times> stream" where
  "Send st req =
     (case outcomes st of
        [] \<Rightarrow> (None, st\<lparr>sent := sent st @ [req]\<rparr>)
      | r # rs \<Rightarrow> (r, st\<lparr>sent := sent st @ [req], outcomes := rs\<rparr>))"

text \<open>
  The loop of \<open>sendChunks\<close>, from the value \<open>i\<close> of its counter. The result \<open>None\<close>
  says that the loop does not return: with a negative chunk size the slice expression
  \<open>data[i:end]\<close> panics, with chunk size 0 the counter never advances and the loop
  runs until a \<open>Send\<close> fails. Go's \<open>int\<close> has 64 bits; \<open>i + chunkSize\<close> is computed only
  for \<open>i\<close> below \<open>len(data)\<close>, and it wraps for no slice that a machine can hold once
  the chunk size is below \<open>len(data)\<close>; the model computes in \<open>int\<close>.
\<close>

partial_function (option) chunkLoop ::
  "int \<Rightarrow> byte list \<Rightarrow> string \<Rightarrow> stream \<Rightarrow> int \<Rightarrow> (error option \<times> stream) option" where
  "chunkLoop cs data filename st i =
     (if i < int (length data) then
        (if i + cs < i then None
         else
           let end = (if i + cs > int (length data) then int (length data) else i + cs);
               req = \<lparr>Chunk = take (nat (end - i)) (drop (nat i) data),
                      Filename = (if i = 0 then filename else []),
                      IsLast = (end = int (length data))\<rparr>
           in case Send st req of
                (Some err, st') \<Rightarrow> Some (mapGRPCError (Some err), st')
              | (None, st') \<Rightarrow> chunkLoop cs data filename st' (i + cs))
      else Some (None, st))"

declare chunkLoop.simps [code]

definition sendChunks :: "grpc_Client \<Rightarrow> stream \<Rightarrow> byte list \<Rightarrow> string \<Rightarrow> (error option \<times> stream) option" where
  "sendChunks c st data filename =
     (if length data = 0 then
        Some (Send st \<lparr>Chunk = [], Filename = filename, IsLast = True\<rparr>)
      else chunkLoop (chunkSize c) data filename st 0)"

text \<open>
  \<open>ScanStream\<close>, given the outcome of \<open>c.scanner.ScanStream(ctx)\<close> (an error, or the
  stream) and what \<open>stream.CloseAndRecv()\<close> returns. An error of \<open>sendChunks\<close> is
  returned as it is; the two others go through \<open>mapGRPCError\<close>. The result is \<open>None\<close>
  when \<open>sendChunks\<close> does not return.
\<close>

definition ScanStream ::
  "grpc_Client \<Rightarrow> (error + stream) \<Rightarrow> (error + ScanResponse) \<Rightarrow> byte list \<Rightarrow> string
     \<Rightarrow> (error option + ScanResult) option" where
  "ScanStream c opened reply data filename =
     (case opened of
        Inl err \<Rightarrow> Some (Inl (mapGRPCError (Some err)))
      | Inr st \<Rightarrow>
          (case sendChunks c st data filename of
             None \<Rightarrow> None
           | Some (Some err, st') \<Rightarrow> Some (Inl (Some err))
           | Some (None, st') \<Rightarrow>
               (case reply of
                  Inl err \<Rightarrow> Some (Inl (mapGRPCError (Some err)))
                | Inr resp \<Rightarrow> Some (Inr (mapScanResponse resp)))))"

section \<open>Multi-file streaming (ScanMultiple)\<close>

text \<open>
  The method \<open>Error()\<close>. For \<open>*clamav.Error\<close> it is the message, followed by the text of
  the cause if there is one; the texts of the errors of the libraries are a parameter.
\<close>

fun Error_text :: "(error \<Rightarrow> string) \<Rightarrow> error \<Rightarrow> string" where
  "Error_text lib (SdkError c m s None) = m"
| "Error_text lib (SdkError c m s (Some e)) = m @ '': '' @ Error_text lib e"
| "Error_text lib e = lib e"

text \<open>
  \<open>ScanMultiple\<close> starts two goroutines that share the stream, the context and the
  buffered channel \<open>results\<close>. A session is the state of this system: where each
  goroutine stands, the buffer, capacity and closed flag of the channel, whether the
  context is done, the two sides of the stream (the send side as for \<open>sendChunks\<close>,
  the receive side as the list of what the coming calls of \<open>Recv\<close> return; when it is
  used up, \<open>Recv\<close> returns \<open>io.EOF\<close>), the number of calls of \<open>CloseSend\<close>, what the
  caller has taken from the channel, and whether a goroutine has panicked.

  The sender stands before a file of the list (\<open>Sending\<close>, with the files still to
  send), in \<open>sendResult\<close> with the result of a file that failed (\<open>SendResult\<close>), or has
  returned. The receiver stands before \<open>Recv\<close>, in \<open>sendResult\<close> with a result
  (\<open>ForwardResult\<close>; the flag says whether the loop goes on afterwards), or has returned.

  The fields \<open>hist_\<dots>\<close> record the history and are read by no step: every result put
  into the channel, with \<open>True\<close> for the sender and \<open>False\<close> for the receiver; the
  files handed to \<open>sendChunks\<close>; those among them for which it returned an error; the
  number of responses that \<open>Recv\<close> returned; whether the sender returned before the end
  of the list.
\<close>

datatype sender_state =
    Sending "FileInput list"
  | SendResult ScanResult "FileInput list"
  | SenderDone

datatype receiver_state =
    Receiving
  | ForwardResult ScanResult bool
  | ReceiverDone

record session =
  sender :: sender_state
  receiver :: receiver_state
  results :: "ScanResult list"
  results_cap :: nat
  results_closed :: bool
  ctx_done :: bool
  send_side :: stream
  recv_side :: "(error + ScanResponse) list"
  CloseSend_calls :: nat
  delivered :: "ScanResult list"
  panicked :: bool
  hist_entries :: "(bool \<times> ScanResult) list"
  hist_processed :: "FileInput list"
  hist_failed :: "FileInput list"
  hist_received :: nat
  hist_aborted :: bool



text \<open>
  The \<open>select\<close> of the closure \<open>sendResult\<close>. The send can proceed when the buffer has
  room, and also when the channel is closed: then it panics. The receive from
  \<open>ctx.Done()\<close> can proceed when the context is done. When both can proceed the
  runtime picks one (\<open>pick_ctx\<close>); when none can, the goroutine waits.
\<close>

datatype select_outcome = Sent | CtxDone | Blocked | PanicClosed

definition sendResult :: "bool \<Rightarrow> session \<Rightarrow> select_outcome" where
  "sendResult pick_ctx s =
     (let can_send = (results_closed s \<or> length (results s) < results_cap s);
          send = (if results_closed s then PanicClosed else Sent)
      in if can_send \<and> ctx_done s then (if pick_ctx then CtxDone else send)
         else if can_send then send
         else if ctx_done s then CtxDone
         else Blocked)"

text \<open>
  One step of the sender. Its return runs the deferred \<open>stream.CloseSend()\<close>, also when
  it panics. The check of \<open>ctx.Done()\<close> and the call of \<open>sendChunks\<close> for a file are
  one step; a call of \<open>sendChunks\<close> that does not return leaves the sender where it is.
\<close>

definition sender_return :: "bool \<Rightarrow> session \<Rightarrow> session" where
  "sender_return early s =
     s\<lparr>sender := SenderDone, CloseSend_calls := CloseSend_calls s + 1,
       hist_aborted := (hist_aborted s \<or> early)\<rparr>"

definition sender_step :: "grpc_Client \<Rightarrow> (error \<Rightarrow> string) \<Rightarrow> bool \<Rightarrow> session \<Rightarrow> session" where
  "sender_step c lib pick_ctx s =
     (case sender s of
        Sending [] \<Rightarrow> sender_return False s
      | Sending (file # files) \<Rightarrow>
          if ctx_done s then sender_return True s
          else (case sendChunks c (send_side s) (Data file) (file_Filename file) of
                  None \<Rightarrow> s
                | Some (None, st') \<Rightarrow>
                    s\<lparr>sender := Sending files, send_side := st',
                      hist_processed := hist_processed s @ [file]\<rparr>
                | Some (Some err, st') \<Rightarrow>
                    s\<lparr>sender := SendResult \<lparr>sr_Status = ''ERROR'', sr_Message = Error_text lib err,
                                             sr_ScanTime = 0, sr_Filename = file_Filename file\<rparr> files,
                      send_side := st',
                      hist_processed := hist_processed s @ [file],
                      hist_failed := hist_failed s @ [file]\<rparr>)
      | SendResult r files \<Rightarrow>
          (case sendResult pick_ctx s of
             Sent \<Rightarrow> s\<lparr>sender := Sending files, results := results s @ [r],
                        hist_entries := hist_entries s @ [(True, r)]\<rparr>
           | CtxDone \<Rightarrow> sender_return True s
           | PanicClosed \<Rightarrow> (sender_return True s)\<lparr>panicked := True\<rparr>
           | Blocked \<Rightarrow> s)
      | SenderDone \<Rightarrow> s)"

text \<open>
  One step of the receiver. Its return runs the deferred \<open>cancel()\<close> and then the
  deferred \<open>close(results)\<close>, taken as one step.
\<close>

definition receiver_return :: "session \<Rightarrow> session" where
  "receiver_return s = s\<lparr>receiver := ReceiverDone, ctx_done := True, results_closed := True\<rparr>"

definition receiver_step :: "(error \<Rightarrow> string) \<Rightarrow> bool \<Rightarrow> session \<Rightarrow> session" where
  "receiver_step lib pick_ctx s =
     (case receiver s of
        Receiving \<Rightarrow>
          (case recv_side s of
             [] \<Rightarrow> receiver_return s
           | Inr resp # rest \<Rightarrow>
               s\<lparr>receiver := ForwardResult (mapScanResponse resp) True, recv_side := rest,
                 hist_received := hist_received s + 1\<rparr>
           | Inl err # rest \<Rightarrow>
               if err = io_EOF then receiver_return (s\<lparr>recv_side := rest\<rparr>)
               else if (case status_FromError err of
                          Some (c, m) \<Rightarrow> c = codes_Canceled
                        | None \<Rightarrow> False)
                 then receiver_return (s\<lparr>recv_side := rest\<rparr>)
               else s\<lparr>receiver := ForwardResult \<lparr>sr_Status = ''ERROR'', sr_Message = Error_text lib err,
                                                 sr_ScanTime = 0, sr_Filename = []\<rparr> False,
                      recv_side := rest\<rparr>)
      | ForwardResult r continue \<Rightarrow>
          (case sendResult pick_ctx s of
             Sent \<Rightarrow>
               (let s' = s\<lparr>results := results s @ [r],
                           hist_entries := hist_entries s @ [(False, r)]\<rparr>
                in if continue then s'\<lparr>receiver := Receiving\<rparr> else receiver_return s')
           | CtxDone \<Rightarrow> receiver_return s
           | PanicClosed \<Rightarrow> (receiver_return s)\<lparr>panicked := True\<rparr>
           | Blocked \<Rightarrow> s)
      | ReceiverDone \<Rightarrow> s)"

text \<open>
  A schedule is a list of actions: a step of the sender or of the receiver (with the
  pick of the runtime, should its \<open>select\<close> have the choice), the caller taking one
  result from the channel, and the context becoming done from outside (the caller
  cancels, or the deadline passes). An action that cannot proceed leaves the session
  as it is; after a panic nothing proceeds. \<open>run\<close> executes a schedule.
\<close>

datatype action = SenderStep bool | ReceiverStep bool | Consume | Cancel

definition consume :: "session \<Rightarrow> session" where
  "consume s =
     (case results s of
        [] \<Rightarrow> s
      | r # rs \<Rightarrow> s\<lparr>results := rs, delivered := delivered s @ [r]\<rparr>)"

fun step :: "grpc_Client \<Rightarrow> (error \<Rightarrow> string) \<Rightarrow> action \<Rightarrow> session \<Rightarrow> session" where
  "step c lib a s =
     (if panicked s then s
      else case a of
             SenderStep pick_ctx \<Rightarrow> sender_step c lib pick_ctx s
           | ReceiverStep pick_ctx \<Rightarrow> receiver_step lib pick_ctx s
           | Consume \<Rightarrow> consume s
           | Cancel \<Rightarrow> s\<lparr>ctx_done := True\<rparr>)"





section \<open>Fixtures\<close>

text \<open>
  Concrete environments in the manner of the repository's tests, at which the theorems
  below are instantiated: a standard library that parses the two base addresses of
  \<open>TestNewClient\<close> and builds requests, a REST client whose server answers every request
  with one response (\<open>testutil.NewMockServer\<close>), the body that \<open>testutil.JSONHandler\<close>
  writes for a status and a message, and a gRPC client whose stub returns fixed outcomes.
\<close>

definition mock_stdlib :: stdlib where
  "mock_stdlib =
     \<lparr>url_Parse = (\<lambda>s. if s = ''http://localhost:6000''
                         then Inr \<lparr>Scheme = ''http'', Host = ''localhost:6000''\<rparr>
                       else if s = ''localhost:6000''
                         then Inr \<lparr>Scheme = ''localhost'', Host = []\<rparr>
                       else Inl (Wrap ''parse error'' None)),
      http_NewRequestWithContext =
        (\<lambda>m u b. Inr \<lparr>Method = m, req_URL = u, Header = [], Body = b, ContentLength = 0\<rparr>),
      multipart_boundary = ''boundary'',
      http_DefaultDo = (\<lambda>r. Inl (net_OpError (Wrap ''connection refused'' None)))\<rparr>"

definition mock_server :: "response \<Rightarrow> http_Client Client" where
  "mock_server resp =
     \<lparr>baseURL = ''http://localhost:6000'',
      httpClient = \<lparr>Timeout = defaultTimeout, Do = (\<lambda>r. Inr resp)\<rparr>,
      timeout = defaultTimeout, headers = []\<rparr>"

definition json_message :: "string \<Rightarrow> string \<Rightarrow> json_body" where
  "json_message st msg =
     \<lparr>as_error = Inr \<lparr>eb_Status = st, eb_Message = msg\<rparr>,
      as_scan = Inr \<lparr>sr_Status = st, sr_Message = msg, sr_ScanTime = 0, sr_Filename = []\<rparr>,
      as_health = Inr msg\<rparr>"

definition malformed_json :: json_body where
  "malformed_json =
     \<lparr>as_error = Inl (Wrap ''invalid character'' None),
      as_scan = Inl (Wrap ''invalid character'' None),
      as_health = Inl (Wrap ''invalid character'' None)\<rparr>"

definition mock_grpc :: "(error + HealthCheckResponse) \<Rightarrow> (error + ScanResponse) \<Rightarrow> grpc_Client" where
  "mock_grpc health scan =
     \<lparr>scanner = \<lparr>rpc_HealthCheck = health, rpc_ScanFile = (\<lambda>r. scan)\<rparr>,
      grpc_timeout = 5000000000, chunkSize = 65536, maxMessageSize = 209715200\<rparr>"



section \<open>Properties of the error taxonomy\<close>

lemma As_Error_decorates:
  "decorates w e \<Longrightarrow> is_Sdk e \<Longrightarrow> As_Error (Some w) = Some e"
  by (induction w e rule: decorates.induct) auto

lemma As_Error_foreign: "foreign w \<Longrightarrow> As_Error (Some w) = None"
  by (induction w rule: foreign.induct) auto

lemmas code_defs = CodeConnection_def CodeTimeout_def CodeValidation_def CodeService_def

lemmas new_defs =
  NewConnectionError_def NewTimeoutError_def NewValidationError_def NewServiceError_def

lemmas is_defs =
  IsConnectionError_def IsTimeoutError_def IsValidationError_def IsServiceError_def

text \<open>
  What the kind predicates do. \<open>IsXError\<close> looks at the first \<open>*clamav.Error\<close> on the
  \<open>Unwrap\<close> chain. For each of the four kinds X: \<open>IsXError\<close> is true of an error built by
  \<open>NewXError\<close>, and of that error under any decorators none of which is itself a
  \<open>*clamav.Error\<close> (\<open>decorates w e\<close>), and the three predicates of the other kinds are
  false of them; all four predicates are false of an error with no \<open>*clamav.Error\<close> on
  its chain and of \<open>nil\<close>; \<open>Unwrap\<close> returns the cause given at construction.
\<close>

lemma kind_predicates_wrapped:
  "(decorates w1 (NewConnectionError m1 c1) \<longrightarrow>
      IsConnectionError (Some w1) \<and> \<not> IsTimeoutError (Some w1)
      \<and> \<not> IsValidationError (Some w1) \<and> \<not> IsServiceError (Some w1))
   \<and> (decorates w2 (NewTimeoutError m2 c2) \<longrightarrow>
      IsTimeoutError (Some w2) \<and> \<not> IsConnectionError (Some w2)
      \<and> \<not> IsValidationError (Some w2) \<and> \<not> IsServiceError (Some w2))
   \<and> (decorates w3 (NewValidationError m3 c3) \<longrightarrow>
      IsValidationError (Some w3) \<and> \<not> IsConnectionError (Some w3)
      \<and> \<not> IsTimeoutError (Some w3) \<and> \<not> IsServiceError (Some w3))
   \<and> (decorates w4 (NewServiceError m4 s4 c4) \<longrightarrow>
      IsServiceError (Some w4) \<and> \<not> IsConnectionError (Some w4)
      \<and> \<not> IsTimeoutError (Some w4) \<and> \<not> IsValidationError (Some w4))
   \<and> (foreign f \<longrightarrow>
      \<not> IsConnectionError (Some f) \<and> \<not> IsTimeoutError (Some f)
      \<and> \<not> IsValidationError (Some f) \<and> \<not> IsServiceError (Some f))
   \<and> \<not> IsConnectionError None \<and> \<not> IsTimeoutError None
   \<and> \<not> IsValidationError None \<and> \<not> IsServiceError None
   \<and> IsConnectionError (Some (NewConnectionError m c))
   \<and> IsTimeoutError (Some (NewTimeoutError m c))
   \<and> IsValidationError (Some (NewValidationError m c))
   \<and> IsServiceError (Some (NewServiceError m s c))
   \<and> Unwrap (NewConnectionError m c) = c
   \<and> Unwrap (NewTimeoutError m c) = c
   \<and> Unwrap (NewValidationError m c) = c
   \<and> Unwrap (NewServiceError m s c) = c"
proof -
  have a: "decorates w e \<Longrightarrow> is_Sdk e \<Longrightarrow> As_Error (Some w) = Some e" for w e
    by (rule As_Error_decorates)
  show ?thesis
    by (auto simp: is_defs new_defs code_defs As_Error_foreign dest!: a)
qed

text \<open>
  The lemma at the inputs of the tests in the repository: a connection error under
  \<open>fmt.Errorf("wrapped: %w", err)\<close>, and \<open>errors.New("random error")\<close>.
\<close>

lemma kind_predicates_wrapped_tests:
  "decorates (Wrap ''wrapped'' (Some (NewConnectionError ''conn failed'' None)))
       (NewConnectionError ''conn failed'' None)
   \<and> IsConnectionError (Some (Wrap ''wrapped'' (Some (NewConnectionError ''conn failed'' None))))
   \<and> decorates (url_Error (NewTimeoutError ''timed out'' None)) (NewTimeoutError ''timed out'' None)
   \<and> IsTimeoutError (Some (url_Error (NewTimeoutError ''timed out'' None)))
   \<and> decorates (NewValidationError ''bad input'' None) (NewValidationError ''bad input'' None)
   \<and> \<not> IsServiceError (Some (NewValidationError ''bad input'' None))
   \<and> decorates (Wrap ''a'' (Some (Wrap ''b'' (Some (NewServiceError ''down'' 502 None)))))
        (NewServiceError ''down'' 502 None)
   \<and> IsServiceError (Some (Wrap ''a'' (Some (Wrap ''b'' (Some (NewServiceError ''down'' 502 None))))))
   \<and> foreign (Wrap ''random error'' None)
   \<and> \<not> IsConnectionError (Some (Wrap ''random error'' None))"
  using kind_predicates_wrapped [of
      "Wrap ''wrapped'' (Some (NewConnectionError ''conn failed'' None))" "''conn failed''" None
      "url_Error (NewTimeoutError ''timed out'' None)" "''timed out''" None
      "NewValidationError ''bad input'' None" "''bad input''" None
      "Wrap ''a'' (Some (Wrap ''b'' (Some (NewServiceError ''down'' 502 None))))" "''down''" 502 None
      "Wrap ''random error'' None"]
  by (simp add: new_defs)


section \<open>Properties of the error mappings\<close>

text \<open>
  C2. For a response whose body decodes (to \<open>b\<close>), \<open>handleErrorResponse\<close> returns a
  Validation error for status 400 and 413, a Timeout error for 499 and 504, a Service
  error carrying 502 for 502, and for every other status \<open>s\<close> a Service error carrying
  \<open>s\<close>; for a body that fails to decode it returns a Service error carrying the status
  of the response, with the decoder's error as cause.
\<close>

theorem handleErrorResponse_table:
  "(as_error bd = Inr b \<longrightarrow>
      IsValidationError (Some (handleErrorResponse \<lparr>resp_StatusCode = 400, resp_Body = bd\<rparr>))
    \<and> IsValidationError (Some (handleErrorResponse \<lparr>resp_StatusCode = 413, resp_Body = bd\<rparr>))
    \<and> IsTimeoutError (Some (handleErrorResponse \<lparr>resp_StatusCode = 499, resp_Body = bd\<rparr>))
    \<and> IsServiceError (Some (handleErrorResponse \<lparr>resp_StatusCode = 502, resp_Body = bd\<rparr>))
    \<and> StatusCode (handleErrorResponse \<lparr>resp_StatusCode = 502, resp_Body = bd\<rparr>) = 502
    \<and> IsTimeoutError (Some (handleErrorResponse \<lparr>resp_StatusCode = 504, resp_Body = bd\<rparr>))
    \<and> (s \<notin> {400, 413, 499, 502, 504} \<longrightarrow>
          IsServiceError (Some (handleErrorResponse \<lparr>resp_StatusCode = s, resp_Body = bd\<rparr>))
        \<and> StatusCode (handleErrorResponse \<lparr>resp_StatusCode = s, resp_Body = bd\<rparr>) = s))
   \<and> (as_error bd' = Inl err \<longrightarrow>
          IsServiceError (Some (handleErrorResponse \<lparr>resp_StatusCode = s', resp_Body = bd'\<rparr>))
        \<and> StatusCode (handleErrorResponse \<lparr>resp_StatusCode = s', resp_Body = bd'\<rparr>) = s'
        \<and> Cause (handleErrorResponse \<lparr>resp_StatusCode = s', resp_Body = bd'\<rparr>) = Some err)"
  by (simp add: handleErrorResponse_def is_defs new_defs code_defs Let_def)

text \<open>
  The theorem at a body that decodes, with the unlisted status 403, and at a body that
  does not decode, with status 500.
\<close>

theorem handleErrorResponse_table_witness:
  "as_error (json_message ''denied'' []) = Inr \<lparr>eb_Status = ''denied'', eb_Message = []\<rparr>
   \<and> (403 :: int) \<notin> {400, 413, 499, 502, 504}
   \<and> IsValidationError (Some (handleErrorResponse
         \<lparr>resp_StatusCode = 400, resp_Body = json_message ''denied'' []\<rparr>))
   \<and> IsServiceError (Some (handleErrorResponse
         \<lparr>resp_StatusCode = 403, resp_Body = json_message ''denied'' []\<rparr>))
   \<and> StatusCode (handleErrorResponse
         \<lparr>resp_StatusCode = 403, resp_Body = json_message ''denied'' []\<rparr>) = 403
   \<and> as_error malformed_json = Inl (Wrap ''invalid character'' None)
   \<and> IsServiceError (Some (handleErrorResponse
         \<lparr>resp_StatusCode = 500, resp_Body = malformed_json\<rparr>))
   \<and> StatusCode (handleErrorResponse \<lparr>resp_StatusCode = 500, resp_Body = malformed_json\<rparr>) = 500"
  using handleErrorResponse_table [of
      "json_message ''denied'' []" "\<lparr>eb_Status = ''denied'', eb_Message = []\<rparr>" 403
      malformed_json "Wrap ''invalid character'' None" 500]
  by (simp add: json_message_def malformed_json_def)

text \<open>
  C3. \<open>mapGRPCError\<close> on a gRPC status error: invalid-argument gives a Validation error,
  internal a Service error with status code 500, deadline-exceeded and canceled a Timeout
  error, unavailable a Connection error, and every other code \<open>c\<close> a Service error with
  status code \<open>grpcCodeToHTTP c\<close>; the table of \<open>grpcCodeToHTTP\<close>, which yields 500 for
  every code it does not list.
\<close>

theorem mapGRPCError_table:
  "mapGRPCError (Some (GRPCStatus codes_InvalidArgument m))
     = Some (NewValidationError m (Some (GRPCStatus codes_InvalidArgument m)))
   \<and> mapGRPCError (Some (GRPCStatus codes_Internal m))
     = Some (NewServiceError m 500 (Some (GRPCStatus codes_Internal m)))
   \<and> mapGRPCError (Some (GRPCStatus codes_DeadlineExceeded m))
     = Some (NewTimeoutError m (Some (GRPCStatus codes_DeadlineExceeded m)))
   \<and> mapGRPCError (Some (GRPCStatus codes_Canceled m))
     = Some (NewTimeoutError m (Some (GRPCStatus codes_Canceled m)))
   \<and> mapGRPCError (Some (GRPCStatus codes_Unavailable m))
     = Some (NewConnectionError m (Some (GRPCStatus codes_Unavailable m)))
   \<and> (c \<notin> {codes_InvalidArgument, codes_Internal, codes_DeadlineExceeded, codes_Canceled,
            codes_Unavailable} \<longrightarrow>
        mapGRPCError (Some (GRPCStatus c m))
          = Some (NewServiceError m (grpcCodeToHTTP c) (Some (GRPCStatus c m))))
   \<and> grpcCodeToHTTP codes_OK = 200
   \<and> grpcCodeToHTTP codes_InvalidArgument = 400
   \<and> grpcCodeToHTTP codes_Unauthenticated = 401
   \<and> grpcCodeToHTTP codes_PermissionDenied = 403
   \<and> grpcCodeToHTTP codes_NotFound = 404
   \<and> grpcCodeToHTTP codes_AlreadyExists = 409
   \<and> grpcCodeToHTTP codes_ResourceExhausted = 429
   \<and> grpcCodeToHTTP codes_Canceled = 499
   \<and> grpcCodeToHTTP codes_Internal = 500
   \<and> grpcCodeToHTTP codes_DataLoss = 500
   \<and> grpcCodeToHTTP codes_Unknown = 500
   \<and> grpcCodeToHTTP codes_Unimplemented = 501
   \<and> grpcCodeToHTTP codes_Unavailable = 503
   \<and> grpcCodeToHTTP codes_DeadlineExceeded = 504
   \<and> (c' \<notin> {codes_OK, codes_InvalidArgument, codes_Unauthenticated, codes_PermissionDenied,
             codes_NotFound, codes_AlreadyExists, codes_ResourceExhausted, codes_Canceled,
             codes_Internal, codes_DataLoss, codes_Unknown, codes_Unimplemented,
             codes_Unavailable, codes_DeadlineExceeded} \<longrightarrow> grpcCodeToHTTP c' = 500)"
  by (simp add: mapGRPCError_def grpcCodeToHTTP_def)

text \<open>
  The theorem at not-found, a code outside the five special cases, and at 99, a code
  that grpc-go does not name.
\<close>

theorem mapGRPCError_table_witness:
  "codes_NotFound \<notin> {codes_InvalidArgument, codes_Internal, codes_DeadlineExceeded,
       codes_Canceled, codes_Unavailable}
   \<and> mapGRPCError (Some (GRPCStatus codes_NotFound ''no such file''))
       = Some (NewServiceError ''no such file'' 404 (Some (GRPCStatus codes_NotFound ''no such file'')))
   \<and> (99 :: code) \<notin> {codes_OK, codes_InvalidArgument, codes_Unauthenticated, codes_PermissionDenied,
             codes_NotFound, codes_AlreadyExists, codes_ResourceExhausted, codes_Canceled,
             codes_Internal, codes_DataLoss, codes_Unknown, codes_Unimplemented,
             codes_Unavailable, codes_DeadlineExceeded}
   \<and> grpcCodeToHTTP 99 = 500"
  using mapGRPCError_table [of "''no such file''" codes_NotFound 99]
  by simp

text \<open>
  C5 as stated fails in request/response mode: the response of the repository's test
  "error 502" (status 502, a body with status and message) is not mapped to a
  Connection error.
\<close>

theorem bad_gateway_is_connection_counterexample:
  "\<not> IsConnectionError (Some (handleErrorResponse
        \<lparr>resp_StatusCode = 502,
         resp_Body = json_message ''Clamd service down'' ''Scanning service unavailable''\<rparr>))"
  by (simp add: handleErrorResponse_def json_message_def is_defs new_defs code_defs)

lemma handleErrorResponse_502:
  "resp_StatusCode resp = 502 \<Longrightarrow>
     handleErrorResponse resp = SdkError CodeService (Message (handleErrorResponse resp)) 502
       (Cause (handleErrorResponse resp))"
  by (cases "as_error (resp_Body resp)")
     (simp_all add: handleErrorResponse_def new_defs)

text \<open>
  When the first \<open>j\<close> calls of \<open>Send\<close> succeed, the next one fails with \<open>x\<close>, and the
  payload has more than \<open>j\<close> chunks, the loop of \<open>sendChunks\<close> returns \<open>x\<close> mapped.
\<close>

lemma chunkLoop_fails:
  assumes "1 \<le> cs" and "0 \<le> i" and "i + int j * cs < int (length data)"
    and "outcomes st = replicate j None @ Some x # rest"
  shows "\<exists>st'. chunkLoop cs data fn st i = Some (mapGRPCError (Some x), st')"
  using assms
proof (induction j arbitrary: i st)
  case 0
  then have lt: "i < int (length data)" by simp
  have nw: "\<not> i + cs < i" using "0.prems"(1) by simp
  from "0.prems"(4) have o: "outcomes st = Some x # rest" by simp
  show ?case
    using lt nw o by (subst chunkLoop.simps) (simp add: Let_def Send_def)
next
  case (Suc j)
  have step: "i + int (Suc j) * cs = (i + cs) + int j * cs"
    by (simp add: algebra_simps)
  have jcs: "0 \<le> int j * cs" using Suc.prems(1) by simp
  have lt: "i < int (length data)"
    using Suc.prems(1,3) jcs unfolding step by linarith
  have nw: "\<not> i + cs < i" using Suc.prems(1) by simp
  from Suc.prems(4) have o: "outcomes st = None # (replicate j None @ Some x # rest)" by simp
  define end' where "end' = (if i + cs > int (length data) then int (length data) else i + cs)"
  define req where "req = \<lparr>Chunk = take (nat (end' - i)) (drop (nat i) data),
                      Filename = (if i = 0 then fn else []),
                      IsLast = (end' = int (length data))\<rparr>"
  define st1 where "st1 = st\<lparr>sent := sent st @ [req], outcomes := replicate j None @ Some x # rest\<rparr>"
  have u: "chunkLoop cs data fn st i = chunkLoop cs data fn st1 (i + cs)"
    using lt nw o by (subst chunkLoop.simps) (simp add: Let_def Send_def st1_def req_def end'_def)
  have o1: "outcomes st1 = replicate j None @ Some x # rest" by (simp add: st1_def)
  have nn: "0 \<le> i + cs" using Suc.prems(1,2) by linarith
  have lt1: "(i + cs) + int j * cs < int (length data)"
    using Suc.prems(3) unfolding step .
  from Suc.IH [OF Suc.prems(1) nn lt1 o1] show ?case
    unfolding u .
qed

lemma mapGRPCError_Unavailable:
  "mapGRPCError (Some (GRPCStatus codes_Unavailable m))
     = Some (NewConnectionError m (Some (GRPCStatus codes_Unavailable m)))"
  by (simp add: mapGRPCError_def)

lemma IsConnectionError_New: "IsConnectionError (Some (NewConnectionError m c))"
  by (simp add: is_defs new_defs)

text \<open>
  C5, as amended. An "unavailable" status in multiplexed mode is mapped to a Connection
  error by \<open>mapGRPCError\<close>, and these operations fail with it: \<open>HealthCheck\<close> and
  \<open>ScanFile\<close> when the call returns the status, and \<open>ScanStream\<close> when opening the
  stream returns it, when a \<open>Send\<close> of a chunk of a non-empty payload returns it (the
  first \<open>j\<close> calls succeed, and the payload has more than \<open>j\<close> chunks), or when
  \<open>CloseAndRecv\<close> returns it after the chunks are sent. A 502 response in
  request/response mode is mapped to a Service error carrying status code 502, not to
  a Connection error, whether its body decodes or not, and a scan that receives it
  fails with that error.
\<close>

theorem unreachable_service_kinds:
  "IsConnectionError (mapGRPCError (Some (GRPCStatus codes_Unavailable m)))
   \<and> (rpc_HealthCheck (scanner g) = Inl (GRPCStatus codes_Unavailable m) \<longrightarrow>
        (\<exists>e. grpc_HealthCheck g = ([HealthCheck_call], Inl (Some e)) \<and> IsConnectionError (Some e)))
   \<and> (data \<noteq> [] \<and> rpc_ScanFile (scanner g') \<lparr>req_Data = data, req_Filename = filename\<rparr>
          = Inl (GRPCStatus codes_Unavailable m) \<longrightarrow>
        (\<exists>e. snd (grpc_ScanFile g' data filename) = Inl (Some e) \<and> IsConnectionError (Some e)))
   \<and> (\<exists>e. ScanStream g1 (Inl (GRPCStatus codes_Unavailable m)) reply1 data1 filename1
              = Some (Inl (Some e)) \<and> IsConnectionError (Some e))
   \<and> (data2 \<noteq> [] \<and> 1 \<le> chunkSize g2 \<and> int j * chunkSize g2 < int (length data2)
        \<and> outcomes st2 = replicate j None @ Some (GRPCStatus codes_Unavailable m) # rest \<longrightarrow>
        (\<exists>e st'. sendChunks g2 st2 data2 filename2 = Some (Some e, st')
              \<and> ScanStream g2 (Inr st2) reply2 data2 filename2 = Some (Inl (Some e))
              \<and> IsConnectionError (Some e)))
   \<and> (sendChunks g3 st3 data3 filename3 = Some (None, st3') \<longrightarrow>
        (\<exists>e. ScanStream g3 (Inr st3) (Inl (GRPCStatus codes_Unavailable m)) data3 filename3
                = Some (Inl (Some e)) \<and> IsConnectionError (Some e)))
   \<and> IsServiceError (Some (handleErrorResponse \<lparr>resp_StatusCode = 502, resp_Body = bd\<rparr>))
   \<and> \<not> IsConnectionError (Some (handleErrorResponse \<lparr>resp_StatusCode = 502, resp_Body = bd\<rparr>))
   \<and> StatusCode (handleErrorResponse \<lparr>resp_StatusCode = 502, resp_Body = bd\<rparr>) = 502
   \<and> (Do (httpClient c) req = Inr resp \<and> resp_StatusCode resp = 502 \<longrightarrow>
        (\<exists>e. doScan c req = ([req], Inl e) \<and> IsServiceError (Some e)
             \<and> \<not> IsConnectionError (Some e) \<and> StatusCode e = 502))"
proof -
  let ?down = "GRPCStatus codes_Unavailable m"
  let ?conn = "NewConnectionError m (Some ?down)"
  have h: "handleErrorResponse \<lparr>resp_StatusCode = 502, resp_Body = bd\<rparr>
             = SdkError CodeService (Message (handleErrorResponse \<lparr>resp_StatusCode = 502, resp_Body = bd\<rparr>)) 502
                 (Cause (handleErrorResponse \<lparr>resp_StatusCode = 502, resp_Body = bd\<rparr>))"
    by (rule handleErrorResponse_502) simp
  have p1: "IsConnectionError (mapGRPCError (Some ?down))"
    by (simp add: mapGRPCError_Unavailable IsConnectionError_New)
  have p2: "rpc_HealthCheck (scanner g) = Inl ?down \<longrightarrow>
        (\<exists>e. grpc_HealthCheck g = ([HealthCheck_call], Inl (Some e)) \<and> IsConnectionError (Some e))"
    by (simp add: grpc_HealthCheck_def mapGRPCError_Unavailable IsConnectionError_New)
  have p3: "data \<noteq> [] \<and> rpc_ScanFile (scanner g') \<lparr>req_Data = data, req_Filename = filename\<rparr>
          = Inl ?down \<longrightarrow>
        (\<exists>e. snd (grpc_ScanFile g' data filename) = Inl (Some e) \<and> IsConnectionError (Some e))"
    by (simp add: grpc_ScanFile_def mapGRPCError_Unavailable IsConnectionError_New)
  have q1: "\<exists>e. ScanStream g1 (Inl ?down) reply1 data1 filename1
              = Some (Inl (Some e)) \<and> IsConnectionError (Some e)"
    by (simp add: ScanStream_def mapGRPCError_Unavailable IsConnectionError_New)
  have q2: "data2 \<noteq> [] \<and> 1 \<le> chunkSize g2 \<and> int j * chunkSize g2 < int (length data2)
        \<and> outcomes st2 = replicate j None @ Some ?down # rest \<longrightarrow>
        (\<exists>e st'. sendChunks g2 st2 data2 filename2 = Some (Some e, st')
              \<and> ScanStream g2 (Inr st2) reply2 data2 filename2 = Some (Inl (Some e))
              \<and> IsConnectionError (Some e))"
  proof
    assume a: "data2 \<noteq> [] \<and> 1 \<le> chunkSize g2 \<and> int j * chunkSize g2 < int (length data2)
        \<and> outcomes st2 = replicate j None @ Some ?down # rest"
    then have a1: "1 \<le> chunkSize g2" and a2: "0 + int j * chunkSize g2 < int (length data2)"
      and a3: "outcomes st2 = replicate j None @ Some ?down # rest" and a4: "data2 \<noteq> []"
      by simp_all
    from chunkLoop_fails [OF a1 _ a2 a3, of filename2]
    obtain st' where "chunkLoop (chunkSize g2) data2 filename2 st2 0
        = Some (mapGRPCError (Some ?down), st')"
      by auto
    then have s: "sendChunks g2 st2 data2 filename2 = Some (Some ?conn, st')"
      using a4 by (simp add: sendChunks_def mapGRPCError_Unavailable)
    then have t: "ScanStream g2 (Inr st2) reply2 data2 filename2 = Some (Inl (Some ?conn))"
      by (simp add: ScanStream_def)
    have "sendChunks g2 st2 data2 filename2 = Some (Some ?conn, st')
              \<and> ScanStream g2 (Inr st2) reply2 data2 filename2 = Some (Inl (Some ?conn))
              \<and> IsConnectionError (Some ?conn)"
      using s t IsConnectionError_New by simp
    then show "\<exists>e st'. sendChunks g2 st2 data2 filename2 = Some (Some e, st')
              \<and> ScanStream g2 (Inr st2) reply2 data2 filename2 = Some (Inl (Some e))
              \<and> IsConnectionError (Some e)"
      by - (intro exI, assumption)
  qed
  have q3: "sendChunks g3 st3 data3 filename3 = Some (None, st3') \<longrightarrow>
        (\<exists>e. ScanStream g3 (Inr st3) (Inl ?down) data3 filename3
                = Some (Inl (Some e)) \<and> IsConnectionError (Some e))"
    by (simp add: ScanStream_def mapGRPCError_Unavailable IsConnectionError_New)
  have p4: "IsServiceError (Some (handleErrorResponse \<lparr>resp_StatusCode = 502, resp_Body = bd\<rparr>))"
    by (subst h) (simp add: is_defs)
  have p5: "\<not> IsConnectionError (Some (handleErrorResponse \<lparr>resp_StatusCode = 502, resp_Body = bd\<rparr>))"
    by (subst h) (simp add: is_defs code_defs)
  have p6: "StatusCode (handleErrorResponse \<lparr>resp_StatusCode = 502, resp_Body = bd\<rparr>) = 502"
    by (subst h) simp
  have p7: "Do (httpClient c) req = Inr resp \<and> resp_StatusCode resp = 502 \<longrightarrow>
        (\<exists>e. doScan c req = ([req], Inl e) \<and> IsServiceError (Some e)
             \<and> \<not> IsConnectionError (Some e) \<and> StatusCode e = 502)"
  proof
    assume a: "Do (httpClient c) req = Inr resp \<and> resp_StatusCode resp = 502"
    then have d: "doScan c req = ([req], Inl (handleErrorResponse resp))"
      by (simp add: doScan_def do_def)
    have k: "handleErrorResponse resp = SdkError CodeService (Message (handleErrorResponse resp)) 502
       (Cause (handleErrorResponse resp))"
      using a by (intro handleErrorResponse_502) simp
    have "IsServiceError (Some (handleErrorResponse resp))
        \<and> \<not> IsConnectionError (Some (handleErrorResponse resp))
        \<and> StatusCode (handleErrorResponse resp) = 502"
      by (subst k, subst k, subst k) (simp add: is_defs code_defs)
    with d show "\<exists>e. doScan c req = ([req], Inl e) \<and> IsServiceError (Some e)
             \<and> \<not> IsConnectionError (Some e) \<and> StatusCode e = 502"
      by simp
  qed
  show ?thesis
    by (intro conjI) (rule p1, rule p2, rule p3, rule q1, rule q2, rule q3,
        rule p4, rule p5, rule p6, rule p7)
qed

text \<open>
  The theorem at a stub whose calls return "unavailable", at a payload of ten bytes
  sent in chunks of 4 on a stream whose second \<open>Send\<close> returns "unavailable", at the
  same payload on a stream that accepts it and then returns "unavailable" from
  \<open>CloseAndRecv\<close>, and at a server that answers the scan request with the 502 response
  above.
\<close>

theorem unreachable_service_kinds_witness:
  "(let down = GRPCStatus codes_Unavailable ''connection refused'';
        g = mock_grpc (Inl down) (Inl down);
        g4 = g\<lparr>chunkSize := 4\<rparr>;
        payload = [1, 2, 3, 4, 5, 6, 7, 8, 9, 10] :: byte list;
        st = \<lparr>sent = [], outcomes = [None, Some down]\<rparr>;
        ok = \<lparr>sent = [], outcomes = []\<rparr>;
        verdict = \<lparr>pb_Status = ''OK'', pb_Message = [], pb_ScanTime = 0, pb_Filename = ''big.bin''\<rparr>;
        resp = \<lparr>resp_StatusCode = 502,
                resp_Body = json_message ''Clamd service down'' ''Scanning service unavailable''\<rparr>;
        c = mock_server resp;
        req = \<lparr>Method = ''POST'', req_URL = ''http://localhost:6000/api/scan'', Header = [],
               Body = Multipart ''boundary'' ''file'' ''test.txt'' [100, 97, 116, 97],
               ContentLength = 0\<rparr>
    in rpc_HealthCheck (scanner g) = Inl down
       \<and> (\<exists>e. grpc_HealthCheck g = ([HealthCheck_call], Inl (Some e)) \<and> IsConnectionError (Some e))
       \<and> [100, 97, 116, 97] \<noteq> ([] :: byte list)
       \<and> rpc_ScanFile (scanner g) \<lparr>req_Data = [100, 97, 116, 97], req_Filename = ''test.txt''\<rparr>
            = Inl down
       \<and> (\<exists>e. snd (grpc_ScanFile g [100, 97, 116, 97] ''test.txt'') = Inl (Some e)
              \<and> IsConnectionError (Some e))
       \<and> payload \<noteq> [] \<and> 1 \<le> chunkSize g4 \<and> int 1 * chunkSize g4 < int (length payload)
       \<and> outcomes st = replicate 1 None @ Some down # []
       \<and> (\<exists>e st'. sendChunks g4 st payload ''big.bin'' = Some (Some e, st')
              \<and> ScanStream g4 (Inr st) (Inr verdict) payload ''big.bin'' = Some (Inl (Some e))
              \<and> IsConnectionError (Some e))
       \<and> sendChunks g4 ok payload ''big.bin''
           = Some (None, \<lparr>sent = [\<lparr>Chunk = [1, 2, 3, 4], Filename = ''big.bin'', IsLast = False\<rparr>,
                                  \<lparr>Chunk = [5, 6, 7, 8], Filename = [], IsLast = False\<rparr>,
                                  \<lparr>Chunk = [9, 10], Filename = [], IsLast = True\<rparr>],
                          outcomes = []\<rparr>)
       \<and> (\<exists>e. ScanStream g4 (Inr ok) (Inl down) payload ''big.bin'' = Some (Inl (Some e))
              \<and> IsConnectionError (Some e))
       \<and> Do (httpClient c) req = Inr resp \<and> resp_StatusCode resp = 502
       \<and> (\<exists>e. doScan c req = ([req], Inl e) \<and> IsServiceError (Some e)
              \<and> \<not> IsConnectionError (Some e) \<and> StatusCode e = 502))"
proof -
  let ?down = "GRPCStatus codes_Unavailable ''connection refused''"
  let ?g = "mock_grpc (Inl ?down) (Inl ?down)"
  let ?g4 = "?g\<lparr>chunkSize := 4\<rparr>"
  let ?payload = "[1, 2, 3, 4, 5, 6, 7, 8, 9, 10] :: byte list"
  let ?st = "\<lparr>sent = [], outcomes = [None, Some ?down]\<rparr>"
  let ?ok = "\<lparr>sent = [], outcomes = []\<rparr>"
  let ?sent = "\<lparr>sent = [\<lparr>Chunk = [1, 2, 3, 4], Filename = ''big.bin'', IsLast = False\<rparr>,
                                  \<lparr>Chunk = [5, 6, 7, 8], Filename = [], IsLast = False\<rparr>,
                                  \<lparr>Chunk = [9, 10], Filename = [], IsLast = True\<rparr>],
                          outcomes = []\<rparr>"
  have ok: "sendChunks ?g4 ?ok ?payload ''big.bin'' = Some (None, ?sent)"
    by (simp add: mock_grpc_def sendChunks_def chunkLoop.simps Send_def)
  show ?thesis
    unfolding Let_def
    using unreachable_service_kinds [of
      "''connection refused''" ?g "[100, 97, 116, 97]" ?g "''test.txt''"
      ?g4 _ _ _
      ?payload ?g4 1 ?st "[]" "''big.bin''"
      "Inr \<lparr>pb_Status = ''OK'', pb_Message = [], pb_ScanTime = 0, pb_Filename = ''big.bin''\<rparr>"
      ?g4 ?ok ?payload "''big.bin''" ?sent
      _
      "mock_server \<lparr>resp_StatusCode = 502,
         resp_Body = json_message ''Clamd service down'' ''Scanning service unavailable''\<rparr>"
      "\<lparr>Method = ''POST'', req_URL = ''http://localhost:6000/api/scan'', Header = [],
        Body = Multipart ''boundary'' ''file'' ''test.txt'' [100, 97, 116, 97],
        ContentLength = 0\<rparr>"
      "\<lparr>resp_StatusCode = 502,
        resp_Body = json_message ''Clamd service down'' ''Scanning service unavailable''\<rparr>"]
      ok
    by (simp add: mock_grpc_def mock_server_def)
qed

section \<open>Properties of the operations\<close>

text \<open>
  C7. \<open>StreamScan\<close> with a declared size that is zero or negative returns a Validation
  error and hands no request to the HTTP client; the gRPC \<open>ScanFile\<close> with an empty
  payload returns a Validation error and makes no call on the stub.
\<close>

theorem invalid_input_fails_fast:
  "(size' \<le> 0 \<longrightarrow>
      (\<exists>e. StreamScan std c r size' = ([], Inl e) \<and> IsValidationError (Some e)))
   \<and> (\<exists>e. grpc_ScanFile g [] filename = ([], Inl (Some e)) \<and> IsValidationError (Some e))"
  by (simp add: StreamScan_def grpc_ScanFile_def mapGRPCError_def is_defs new_defs code_defs)

text \<open>
  The theorem at the size -1 of the test "negative size".
\<close>

theorem invalid_input_fails_fast_witness:
  "(- 1 :: int) \<le> 0
   \<and> (\<exists>e. StreamScan mock_stdlib
             (mock_server \<lparr>resp_StatusCode = 200, resp_Body = json_message ''OK'' []\<rparr>)
             (bytes_NewReader [100, 97, 116, 97]) (- 1) = ([], Inl e)
          \<and> IsValidationError (Some e))
   \<and> (\<exists>e. grpc_ScanFile
             (mock_grpc (Inr \<lparr>hr_Status = ''healthy'', hr_Message = []\<rparr>)
                        (Inr \<lparr>pb_Status = ''OK'', pb_Message = [], pb_ScanTime = 0,
                               pb_Filename = ''empty.txt''\<rparr>))
             [] ''empty.txt'' = ([], Inl (Some e))
          \<and> IsValidationError (Some e))"
  using invalid_input_fails_fast [of "- 1" mock_stdlib
      "mock_server \<lparr>resp_StatusCode = 200, resp_Body = json_message ''OK'' []\<rparr>"
      "bytes_NewReader [100, 97, 116, 97]"
      "mock_grpc (Inr \<lparr>hr_Status = ''healthy'', hr_Message = []\<rparr>)
                        (Inr \<lparr>pb_Status = ''OK'', pb_Message = [], pb_ScanTime = 0,
                               pb_Filename = ''empty.txt''\<rparr>)"
      "''empty.txt''"]
  by simp

text \<open>
  C9. The REST \<open>HealthCheck\<close>, when the round trip yields a response whose body decodes,
  reports healthy exactly when the status is 200 and the message is "ok"; the gRPC
  \<open>HealthCheck\<close>, when the call yields a response, reports healthy exactly when the
  status field is "healthy". Both pass the message on.
\<close>

theorem health_rules:
  "(newRequest std c ''GET'' pathHealthCheck NoBody = Inr req
      \<and> Do (httpClient c) req = Inr resp \<and> as_health (resp_Body resp) = Inr message \<longrightarrow>
        (\<exists>r. HealthCheck std c = ([req], Inr r)
            \<and> (Healthy r \<longleftrightarrow> resp_StatusCode resp = 200 \<and> message = ''ok'')
            \<and> hc_Message r = message))
   \<and> (rpc_HealthCheck (scanner g) = Inr hresp \<longrightarrow>
        (\<exists>r. grpc_HealthCheck g = ([HealthCheck_call], Inr r)
            \<and> (Healthy r \<longleftrightarrow> hr_Status hresp = ''healthy'')
            \<and> hc_Message r = hr_Message hresp))"
  by (simp add: HealthCheck_def do_def grpc_HealthCheck_def)

text \<open>
  The two rules differ: a REST response with status 200 and message "healthy" is not
  healthy, and a gRPC response with status "ok" is not healthy.
\<close>

theorem health_rules_witness:
  "(let std = mock_stdlib;
        resp = \<lparr>resp_StatusCode = 200, resp_Body = json_message [] ''healthy''\<rparr>;
        c = mock_server resp;
        req = \<lparr>Method = ''GET'', req_URL = ''http://localhost:6000/api/health-check'',
               Header = [], Body = NoBody, ContentLength = 0\<rparr>;
        hresp = \<lparr>hr_Status = ''ok'', hr_Message = ''ok''\<rparr>;
        g = mock_grpc (Inr hresp) (Inl (GRPCStatus codes_Internal ''scan failed''))
    in newRequest std c ''GET'' pathHealthCheck NoBody = Inr req
       \<and> Do (httpClient c) req = Inr resp
       \<and> as_health (resp_Body resp) = Inr ''healthy''
       \<and> HealthCheck std c = ([req], Inr \<lparr>Healthy = False, hc_Message = ''healthy''\<rparr>)
       \<and> rpc_HealthCheck (scanner g) = Inr hresp
       \<and> grpc_HealthCheck g = ([HealthCheck_call], Inr \<lparr>Healthy = False, hc_Message = ''ok''\<rparr>))"
  unfolding Let_def
  using health_rules [of mock_stdlib
      "mock_server \<lparr>resp_StatusCode = 200, resp_Body = json_message [] ''healthy''\<rparr>"
      "\<lparr>Method = ''GET'', req_URL = ''http://localhost:6000/api/health-check'',
               Header = [], Body = NoBody, ContentLength = 0\<rparr>"
      "\<lparr>resp_StatusCode = 200, resp_Body = json_message [] ''healthy''\<rparr>"
      "''healthy''"
      "mock_grpc (Inr \<lparr>hr_Status = ''ok'', hr_Message = ''ok''\<rparr>) (Inl (GRPCStatus codes_Internal ''scan failed''))"
      "\<lparr>hr_Status = ''ok'', hr_Message = ''ok''\<rparr>"]
  by (auto simp: mock_stdlib_def mock_server_def json_message_def mock_grpc_def newRequest_def
        pathHealthCheck_def)

lemma doScan_fst: "fst (doScan c req) = [req]"
  by (simp add: doScan_def do_def split: sum.splits)

text \<open>
  C10. The REST \<open>ScanFile\<close> with an empty payload is \<open>ScanReader\<close> on an empty reader.
  When the request can be built, it is handed to the HTTP client, with the multipart
  form holding the empty file as its body, and the result of the call is the result of
  that exchange; a response 200 with a decodable body is returned as the scan result.
  The call ends without network activity only when the request cannot be built, and
  then with a Connection error, not a Validation error. The gRPC \<open>ScanFile\<close>, in
  contrast, returns a Validation error for the empty payload without any call.
\<close>

theorem rest_accepts_empty_payload:
  "ScanReader std c (bytes_NewReader []) filename = ScanFile std c [] filename
   \<and> (http_NewRequestWithContext std ''POST'' (baseURL c @ pathScan)
          (Multipart (multipart_boundary std) ''file''
             (if filename = [] then ''file'' else filename) []) = Inr req
        \<and> req' = req\<lparr>Header := Header req @ headers c @
              [(''Content-Type'', ''multipart/form-data; boundary='' @ multipart_boundary std)]\<rparr> \<longrightarrow>
         ScanFile std c [] filename = doScan c req'
       \<and> fst (ScanFile std c [] filename) = [req']
       \<and> (Do (httpClient c) req' = Inr resp \<and> resp_StatusCode resp = 200
            \<and> as_scan (resp_Body resp) = Inr result \<longrightarrow>
              ScanFile std c [] filename = ([req'], Inr result)))
   \<and> (fst (ScanFile std' c' [] filename') = [] \<longrightarrow>
         (\<exists>e. snd (ScanFile std' c' [] filename') = Inl e
             \<and> IsConnectionError (Some e) \<and> \<not> IsValidationError (Some e)))
   \<and> (\<exists>e. grpc_ScanFile g [] filename = ([], Inl (Some e)) \<and> IsValidationError (Some e))"
proof -
  have p1: "ScanReader std c (bytes_NewReader []) filename = ScanFile std c [] filename"
    by (simp add: ScanFile_def)
  have p2: "http_NewRequestWithContext std ''POST'' (baseURL c @ pathScan)
          (Multipart (multipart_boundary std) ''file''
             (if filename = [] then ''file'' else filename) []) = Inr req
        \<and> req' = req\<lparr>Header := Header req @ headers c @
              [(''Content-Type'', ''multipart/form-data; boundary='' @ multipart_boundary std)]\<rparr> \<longrightarrow>
         ScanFile std c [] filename = doScan c req'
       \<and> fst (ScanFile std c [] filename) = [req']
       \<and> (Do (httpClient c) req' = Inr resp \<and> resp_StatusCode resp = 200
            \<and> as_scan (resp_Body resp) = Inr result \<longrightarrow>
              ScanFile std c [] filename = ([req'], Inr result))"
  proof (intro impI, elim conjE)
    assume a: "http_NewRequestWithContext std ''POST'' (baseURL c @ pathScan)
          (Multipart (multipart_boundary std) ''file''
             (if filename = [] then ''file'' else filename) []) = Inr req"
      and b: "req' = req\<lparr>Header := Header req @ headers c @
              [(''Content-Type'', ''multipart/form-data; boundary='' @ multipart_boundary std)]\<rparr>"
    have e: "ScanFile std c [] filename = doScan c req'"
      using a unfolding b
      by (simp add: ScanFile_def ScanReader_def bytes_NewReader_def newRequest_def Let_def)
    have "Do (httpClient c) req' = Inr resp \<and> resp_StatusCode resp = 200
            \<and> as_scan (resp_Body resp) = Inr result \<longrightarrow> doScan c req' = ([req'], Inr result)"
      by (simp add: doScan_def do_def)
    then show "ScanFile std c [] filename = doScan c req'
       \<and> fst (ScanFile std c [] filename) = [req']
       \<and> (Do (httpClient c) req' = Inr resp \<and> resp_StatusCode resp = 200
            \<and> as_scan (resp_Body resp) = Inr result \<longrightarrow>
              ScanFile std c [] filename = ([req'], Inr result))"
      by (simp add: e doScan_fst)
  qed
  have p3: "fst (ScanFile std' c' [] filename') = [] \<longrightarrow>
         (\<exists>e. snd (ScanFile std' c' [] filename') = Inl e
             \<and> IsConnectionError (Some e) \<and> \<not> IsValidationError (Some e))"
    by (auto simp: ScanFile_def ScanReader_def bytes_NewReader_def newRequest_def Let_def
          doScan_fst is_defs new_defs code_defs split: sum.splits)
  have p4: "\<exists>e. grpc_ScanFile g [] filename = ([], Inl (Some e)) \<and> IsValidationError (Some e)"
    by (simp add: grpc_ScanFile_def mapGRPCError_def is_defs new_defs)
  show ?thesis
    by (intro conjI) (rule p1, rule p2, rule p3, rule p4)
qed

text \<open>
  The theorem at a server that answers 200 with a clean result, and at a standard
  library whose \<open>http.NewRequestWithContext\<close> fails.
\<close>

theorem rest_accepts_empty_payload_witness:
  "(let c = mock_server \<lparr>resp_StatusCode = 200, resp_Body = json_message ''OK'' []\<rparr>;
        req = \<lparr>Method = ''POST'', req_URL = ''http://localhost:6000/api/scan'', Header = [],
               Body = Multipart ''boundary'' ''file'' ''empty.txt'' [], ContentLength = 0\<rparr>;
        req' = req\<lparr>Header := [(''Content-Type'', ''multipart/form-data; boundary=boundary'')]\<rparr>;
        nil_ctx = mock_stdlib\<lparr>http_NewRequestWithContext :=
                    (\<lambda>m u b. Inl (Wrap ''net/http: nil Context'' None))\<rparr>
    in http_NewRequestWithContext mock_stdlib ''POST'' (baseURL c @ pathScan)
          (Multipart (multipart_boundary mock_stdlib) ''file'' ''empty.txt'' []) = Inr req
       \<and> Do (httpClient c) req' = Inr \<lparr>resp_StatusCode = 200, resp_Body = json_message ''OK'' []\<rparr>
       \<and> ScanFile mock_stdlib c [] ''empty.txt''
           = ([req'], Inr \<lparr>sr_Status = ''OK'', sr_Message = [], sr_ScanTime = 0, sr_Filename = []\<rparr>)
       \<and> fst (ScanFile nil_ctx c [] ''empty.txt'') = []
       \<and> (\<exists>e. snd (ScanFile nil_ctx c [] ''empty.txt'') = Inl e \<and> IsConnectionError (Some e)))"
  unfolding Let_def
  using rest_accepts_empty_payload [of
      mock_stdlib "mock_server \<lparr>resp_StatusCode = 200, resp_Body = json_message ''OK'' []\<rparr>"
      "''empty.txt''"
      "\<lparr>Method = ''POST'', req_URL = ''http://localhost:6000/api/scan'', Header = [],
               Body = Multipart ''boundary'' ''file'' ''empty.txt'' [], ContentLength = 0\<rparr>"
      "\<lparr>Method = ''POST'', req_URL = ''http://localhost:6000/api/scan'',
        Header = [(''Content-Type'', ''multipart/form-data; boundary=boundary'')],
               Body = Multipart ''boundary'' ''file'' ''empty.txt'' [], ContentLength = 0\<rparr>"
      "\<lparr>resp_StatusCode = 200, resp_Body = json_message ''OK'' []\<rparr>"
      "\<lparr>sr_Status = ''OK'', sr_Message = [], sr_ScanTime = 0, sr_Filename = []\<rparr>"
      "mock_stdlib\<lparr>http_NewRequestWithContext :=
                    (\<lambda>m u b. Inl (Wrap ''net/http: nil Context'' None))\<rparr>"
      "mock_server \<lparr>resp_StatusCode = 200, resp_Body = json_message ''OK'' []\<rparr>"
      "''empty.txt''"]
  by (simp add: mock_stdlib_def mock_server_def json_message_def pathScan_def
        ScanFile_def ScanReader_def bytes_NewReader_def newRequest_def)

section \<open>Properties of the construction of the REST client\<close>

lemma fold_apply_option_baseURL: "baseURL (fold apply_option opts c) = baseURL c"
proof (induction opts arbitrary: c)
  case Nil
  show ?case by simp
next
  case (Cons opt opts)
  have "baseURL (apply_option opt c) = baseURL c"
    by (cases "(opt, c)" rule: apply_option.cases) auto
  with Cons show ?case by simp
qed

lemma TrimRight_slash_no_trailing:
  "TrimRight_slash s = [] \<or> last (TrimRight_slash s) \<noteq> CHR ''/''"
proof (cases "dropWhile (\<lambda>c. c = CHR ''/'') (rev s)")
  case Nil
  then show ?thesis by (simp add: TrimRight_slash_def)
next
  case (Cons x xs)
  then have "x \<noteq> CHR ''/''"
    using hd_dropWhile [of "\<lambda>c. c = CHR ''/''" "rev s"] by auto
  with Cons show ?thesis by (simp add: TrimRight_slash_def)
qed

lemma takeWhile_eq_replicate:
  "takeWhile (\<lambda>c. c = a) xs = replicate (length (takeWhile (\<lambda>c. c = a) xs)) a"
  by (induction xs) simp_all

lemma TrimRight_slash_prefix:
  "\<exists>n. s = TrimRight_slash s @ replicate n (CHR ''/'')"
proof -
  let ?P = "\<lambda>c. c = CHR ''/''"
  let ?n = "length (takeWhile ?P (rev s))"
  have "s = rev (takeWhile ?P (rev s) @ dropWhile ?P (rev s))"
    by (simp only: takeWhile_dropWhile_id rev_rev_ident)
  then have "s = TrimRight_slash s @ rev (takeWhile ?P (rev s))"
    by (simp only: rev_append TrimRight_slash_def)
  also have "rev (takeWhile ?P (rev s)) = rev (replicate ?n (CHR ''/''))"
    using takeWhile_eq_replicate [of "CHR ''/''" "rev s"] by simp
  finally have "s = TrimRight_slash s @ replicate ?n (CHR ''/'')"
    by simp
  then show ?thesis ..
qed

lemma NewClient_Inr:
  assumes "NewClient std b opts = Inr c"
  shows "baseURL c = TrimRight_slash b"
    and "\<exists>u. url_Parse std (TrimRight_slash b) = Inr u \<and> Scheme u \<noteq> [] \<and> Host u \<noteq> []"
  using assms
  by (auto simp: NewClient_def Let_def fold_apply_option_baseURL split: sum.splits if_splits)

lemma NewClient_Inl:
  assumes "NewClient std b opts = Inl e"
  shows "Code e = CodeValidation"
    and "is_Sdk e"
    and "url_Parse std (TrimRight_slash b) = Inr u \<Longrightarrow> Scheme u = [] \<or> Host u = []"
  using assms
  by (auto simp: NewClient_def Let_def new_defs split: sum.splits if_splits)

text \<open>
  C8. A client that \<open>NewClient\<close> returns stores the base address with all its trailing
  slashes removed (the argument is the stored address followed by slashes only, and the
  stored address does not end in a slash), and \<open>url.Parse\<close> yields a scheme and a host
  for the stored address. When \<open>NewClient\<close> fails, it fails with a Validation error, and
  \<open>url.Parse\<close> failed on the trimmed address or found no scheme or no host. With
  \<open>url.Parse\<close> returning what Go's parser returns on the two addresses of the scenario
  (scheme "http" and host "localhost:6000"; scheme "localhost" and no host),
  "http://localhost:6000/" is stored as "http://localhost:6000", and "localhost:6000"
  fails with a Validation error.
\<close>

theorem NewClient_validates:
  "(NewClient std b opts = Inr c \<longrightarrow>
       baseURL c = TrimRight_slash b
     \<and> (baseURL c = [] \<or> last (baseURL c) \<noteq> CHR ''/'')
     \<and> (\<exists>n. b = baseURL c @ replicate n (CHR ''/''))
     \<and> (\<exists>u. url_Parse std (baseURL c) = Inr u \<and> Scheme u \<noteq> [] \<and> Host u \<noteq> []))
   \<and> (NewClient std' b' opts' = Inl e \<longrightarrow>
       IsValidationError (Some e)
     \<and> (\<forall>u. url_Parse std' (TrimRight_slash b') = Inr u \<longrightarrow> Scheme u = [] \<or> Host u = []))
   \<and> (url_Parse std1 ''http://localhost:6000'' = Inr u1 \<and> Scheme u1 = ''http''
        \<and> Host u1 = ''localhost:6000'' \<longrightarrow>
       (\<exists>c1. NewClient std1 ''http://localhost:6000/'' opts1 = Inr c1
             \<and> baseURL c1 = ''http://localhost:6000''))
   \<and> (url_Parse std2 ''localhost:6000'' = Inr u2 \<and> Scheme u2 = ''localhost'' \<and> Host u2 = [] \<longrightarrow>
       (\<exists>e2. NewClient std2 ''localhost:6000'' opts2 = Inl e2 \<and> IsValidationError (Some e2)))"
proof -
  have t1: "TrimRight_slash ''http://localhost:6000/'' = ''http://localhost:6000''"
    by (simp add: TrimRight_slash_def)
  have t2: "TrimRight_slash ''localhost:6000'' = ''localhost:6000''"
    by (simp add: TrimRight_slash_def)
  have p1: "NewClient std b opts = Inr c \<longrightarrow>
       baseURL c = TrimRight_slash b
     \<and> (baseURL c = [] \<or> last (baseURL c) \<noteq> CHR ''/'')
     \<and> (\<exists>n. b = baseURL c @ replicate n (CHR ''/''))
     \<and> (\<exists>u. url_Parse std (baseURL c) = Inr u \<and> Scheme u \<noteq> [] \<and> Host u \<noteq> [])"
  proof
    assume a: "NewClient std b opts = Inr c"
    have e: "baseURL c = TrimRight_slash b"
      by (rule NewClient_Inr(1) [OF a])
    show "baseURL c = TrimRight_slash b
     \<and> (baseURL c = [] \<or> last (baseURL c) \<noteq> CHR ''/'')
     \<and> (\<exists>n. b = baseURL c @ replicate n (CHR ''/''))
     \<and> (\<exists>u. url_Parse std (baseURL c) = Inr u \<and> Scheme u \<noteq> [] \<and> Host u \<noteq> [])"
      unfolding e
      using NewClient_Inr(2) [OF a] TrimRight_slash_no_trailing [of b] TrimRight_slash_prefix [of b]
      by simp
  qed
  have p2: "NewClient std' b' opts' = Inl e \<longrightarrow>
       IsValidationError (Some e)
     \<and> (\<forall>u. url_Parse std' (TrimRight_slash b') = Inr u \<longrightarrow> Scheme u = [] \<or> Host u = [])"
  proof
    assume a: "NewClient std' b' opts' = Inl e"
    have "As_Error (Some e) = Some e"
      using NewClient_Inl(2) [OF a] by (cases e) simp_all
    then have "IsValidationError (Some e)"
      using NewClient_Inl(1) [OF a] by (simp add: IsValidationError_def)
    then show "IsValidationError (Some e)
     \<and> (\<forall>u. url_Parse std' (TrimRight_slash b') = Inr u \<longrightarrow> Scheme u = [] \<or> Host u = [])"
      using NewClient_Inl(3) [OF a] by simp
  qed
  have p3: "url_Parse std1 ''http://localhost:6000'' = Inr u1 \<and> Scheme u1 = ''http''
        \<and> Host u1 = ''localhost:6000'' \<longrightarrow>
       (\<exists>c1. NewClient std1 ''http://localhost:6000/'' opts1 = Inr c1
             \<and> baseURL c1 = ''http://localhost:6000'')"
    by (simp add: NewClient_def Let_def t1 fold_apply_option_baseURL)
  have p4: "url_Parse std2 ''localhost:6000'' = Inr u2 \<and> Scheme u2 = ''localhost'' \<and> Host u2 = [] \<longrightarrow>
       (\<exists>e2. NewClient std2 ''localhost:6000'' opts2 = Inl e2 \<and> IsValidationError (Some e2))"
    by (simp add: NewClient_def Let_def t2 is_defs new_defs)
  show ?thesis
    by (intro conjI) (rule p1, rule p2, rule p3, rule p4)
qed

text \<open>
  The theorem at the two addresses, with and without an option.
\<close>

theorem NewClient_validates_witness:
  "NewClient mock_stdlib ''http://localhost:6000/'' [WithTimeout 5]
     = Inr \<lparr>baseURL = ''http://localhost:6000'',
            httpClient = \<lparr>Timeout = 5, Do = http_DefaultDo mock_stdlib\<rparr>,
            timeout = 5, headers = []\<rparr>
   \<and> ''http://localhost:6000/'' = ''http://localhost:6000'' @ replicate 1 (CHR ''/'')
   \<and> NewClient mock_stdlib ''localhost:6000'' []
     = Inl (NewValidationError ''base URL must include scheme and host: localhost:6000'' None)
   \<and> IsValidationError
       (Some (NewValidationError ''base URL must include scheme and host: localhost:6000'' None))
   \<and> url_Parse mock_stdlib ''http://localhost:6000''
       = Inr \<lparr>Scheme = ''http'', Host = ''localhost:6000''\<rparr>
   \<and> url_Parse mock_stdlib ''localhost:6000'' = Inr \<lparr>Scheme = ''localhost'', Host = []\<rparr>"
proof -
  have t1: "TrimRight_slash ''http://localhost:6000/'' = ''http://localhost:6000''"
    by (simp add: TrimRight_slash_def)
  have t2: "TrimRight_slash ''localhost:6000'' = ''localhost:6000''"
    by (simp add: TrimRight_slash_def)
  have h1: "NewClient mock_stdlib ''http://localhost:6000/'' [WithTimeout 5]
     = Inr \<lparr>baseURL = ''http://localhost:6000'',
            httpClient = \<lparr>Timeout = 5, Do = http_DefaultDo mock_stdlib\<rparr>,
            timeout = 5, headers = []\<rparr>"
    by (simp add: NewClient_def t1 mock_stdlib_def)
  have h2: "NewClient mock_stdlib ''localhost:6000'' []
     = Inl (NewValidationError ''base URL must include scheme and host: localhost:6000'' None)"
    by (simp add: NewClient_def t2 mock_stdlib_def)
  have h3: "url_Parse mock_stdlib ''http://localhost:6000''
       = Inr \<lparr>Scheme = ''http'', Host = ''localhost:6000''\<rparr>"
    by (simp add: mock_stdlib_def)
  have h4: "url_Parse mock_stdlib ''localhost:6000'' = Inr \<lparr>Scheme = ''localhost'', Host = []\<rparr>"
    by (simp add: mock_stdlib_def)
  show ?thesis
    using h1 h2 h3 h4
      NewClient_validates [of mock_stdlib "''http://localhost:6000/''" "[WithTimeout 5]"
        "\<lparr>baseURL = ''http://localhost:6000'',
            httpClient = \<lparr>Timeout = 5, Do = http_DefaultDo mock_stdlib\<rparr>,
            timeout = 5, headers = []\<rparr>"
        mock_stdlib "''localhost:6000''" "[]"
        "NewValidationError ''base URL must include scheme and host: localhost:6000'' None"
        mock_stdlib "\<lparr>Scheme = ''http'', Host = ''localhost:6000''\<rparr>" "[WithTimeout 5]"
        mock_stdlib "\<lparr>Scheme = ''localhost'', Host = []\<rparr>" "[]"]
    by simp
qed

section \<open>Properties of the chunking\<close>

lemma Send_any:
  "\<exists>r st'. Send st req = (r, st') \<and> sent st' = sent st @ [req]
      \<and> ((\<forall>x\<in>set (outcomes st). x = None) \<longrightarrow> r = None \<and> (\<forall>x\<in>set (outcomes st'). x = None))"
  by (cases "outcomes st") (auto simp: Send_def)

lemma chunkLoop_done:
  "int (length data) \<le> i \<Longrightarrow> chunkLoop cs data fn st i = Some (None, st)"
  by (subst chunkLoop.simps) simp

lemma chunkLoop_general:
  assumes "1 \<le> cs" and "0 \<le> i" and "i < int (length data)"
  shows "\<exists>chunks err st' rest. chunkLoop cs data fn st i = Some (err, st')
           \<and> sent st' = sent st @ chunks
           \<and> chunks \<noteq> []
           \<and> concat (map Chunk chunks) @ rest = drop (nat i) data
           \<and> (\<forall>q\<in>set chunks. Chunk q \<noteq> [] \<and> int (length (Chunk q)) \<le> cs)
           \<and> Filename (hd chunks) = (if i = 0 then fn else [])
           \<and> (\<forall>q\<in>set (butlast chunks). \<not> IsLast q)
           \<and> (err = None \<longrightarrow> rest = [] \<and> IsLast (last chunks))
           \<and> ((\<forall>x\<in>set (outcomes st). x = None) \<longrightarrow> err = None)"
  using assms
proof (induction "nat (int (length data) - i)" arbitrary: i st rule: less_induct)
  case less
  let ?len = "int (length data)"
  let ?end = "if i + cs > ?len then ?len else i + cs"
  define req where "req = \<lparr>Chunk = take (nat (?end - i)) (drop (nat i) data),
               Filename = (if i = 0 then fn else []),
               IsLast = (?end = ?len)\<rparr>"
  have rc: "Chunk req = take (nat (?end - i)) (drop (nat i) data)"
    and rf: "Filename req = (if i = 0 then fn else [])"
    and rl: "IsLast req = (?end = ?len)"
    by (simp_all add: req_def)
  from Send_any [of st req]
  obtain r st1 where s1: "Send st req = (r, st1)"
    and s2: "sent st1 = sent st @ [req]"
    and s3: "(\<forall>x\<in>set (outcomes st). x = None) \<longrightarrow> r = None \<and> (\<forall>x\<in>set (outcomes st1). x = None)"
    by blast
  have len_pos: "nat i < length data"
    using less.prems(2,3) by linarith
  have end_gt: "i < ?end" and end_le: "?end \<le> ?len" and end_cs: "?end - i \<le> cs"
    using less.prems(1,3) by auto
  have ne: "Chunk req \<noteq> []"
    using end_gt len_pos by (simp add: rc)
  have le: "int (length (Chunk req)) \<le> cs"
    using end_cs less.prems(1) by (simp add: rc)
  have split: "Chunk req @ drop (nat ?end) data = drop (nat i) data"
  proof -
    have "nat ?end = nat (?end - i) + nat i"
      using end_gt less.prems(2) by linarith
    then have "drop (nat ?end) data = drop (nat (?end - i)) (drop (nat i) data)"
      by simp
    then show ?thesis unfolding rc by (simp only: append_take_drop_id)
  qed
  show ?case
  proof (cases r)
    case (Some e)
    have u: "chunkLoop cs data fn st i = Some (mapGRPCError (Some e), st1)"
      using less.prems(1,3) s1 [unfolded req_def] Some
      by (subst chunkLoop.simps) (simp add: Let_def)
    have m: "mapGRPCError (Some e) \<noteq> None"
      by (simp add: mapGRPCError_def split: option.splits)
    have na: "\<not> (\<forall>x\<in>set (outcomes st). x = None)"
      using s3 Some by auto
    have k2: "sent st1 = sent st @ [req]" by (rule s2)
    have k3: "[req] \<noteq> []" by simp
    have k4: "concat (map Chunk [req]) @ drop (nat ?end) data = drop (nat i) data"
      using split by simp
    have k5: "\<forall>q\<in>set [req]. Chunk q \<noteq> [] \<and> int (length (Chunk q)) \<le> cs"
      using ne le by simp
    have k6: "Filename (hd [req]) = (if i = 0 then fn else [])"
      using rf by simp
    have k7: "\<forall>q\<in>set (butlast [req]). \<not> IsLast q" by simp
    have k8: "mapGRPCError (Some e) = None \<longrightarrow> drop (nat ?end) data = [] \<and> IsLast (last [req])"
      using m by blast
    have k9: "(\<forall>x\<in>set (outcomes st). x = None) \<longrightarrow> mapGRPCError (Some e) = None"
      using na by blast
    have "chunkLoop cs data fn st i = Some (mapGRPCError (Some e), st1)
           \<and> sent st1 = sent st @ [req]
           \<and> [req] \<noteq> []
           \<and> concat (map Chunk [req]) @ drop (nat ?end) data = drop (nat i) data
           \<and> (\<forall>q\<in>set [req]. Chunk q \<noteq> [] \<and> int (length (Chunk q)) \<le> cs)
           \<and> Filename (hd [req]) = (if i = 0 then fn else [])
           \<and> (\<forall>q\<in>set (butlast [req]). \<not> IsLast q)
           \<and> (mapGRPCError (Some e) = None \<longrightarrow> drop (nat ?end) data = [] \<and> IsLast (last [req]))
           \<and> ((\<forall>x\<in>set (outcomes st). x = None) \<longrightarrow> mapGRPCError (Some e) = None)"
      by (intro conjI) (rule u, rule k2, rule k3, rule k4, rule k5, rule k6, rule k7, rule k8, rule k9)
    then show ?thesis by - (intro exI, assumption)
  next
    case None
    have unfold: "chunkLoop cs data fn st i = chunkLoop cs data fn st1 (i + cs)"
      using less.prems(1,3) s1 [unfolded req_def] None
      by (subst chunkLoop.simps) (simp add: Let_def)
    have s3': "(\<forall>x\<in>set (outcomes st). x = None) \<longrightarrow> (\<forall>x\<in>set (outcomes st1). x = None)"
      using s3 by blast
    show ?thesis
    proof (cases "i + cs < ?len")
      case False
      have e: "?end = ?len"
        using False by auto
      have r: "chunkLoop cs data fn st i = Some (None, st1)"
        using False by (simp add: unfold chunkLoop_done)
      have l: "IsLast req"
        unfolding rl e by simp
      have d: "drop (nat ?len) data = []"
        by simp
      have "chunkLoop cs data fn st i = Some (None, st1)
           \<and> sent st1 = sent st @ [req]
           \<and> [req] \<noteq> []
           \<and> concat (map Chunk [req]) @ [] = drop (nat i) data
           \<and> (\<forall>q\<in>set [req]. Chunk q \<noteq> [] \<and> int (length (Chunk q)) \<le> cs)
           \<and> Filename (hd [req]) = (if i = 0 then fn else [])
           \<and> (\<forall>q\<in>set (butlast [req]). \<not> IsLast q)
           \<and> ((None :: error option) = None \<longrightarrow> ([] :: byte list) = [] \<and> IsLast (last [req]))
           \<and> ((\<forall>x\<in>set (outcomes st). x = None) \<longrightarrow> (None :: error option) = None)"
        using r s2 ne le rf l split [unfolded e d] by simp
      then show ?thesis by - (intro exI, assumption)
    next
      case True
      have e: "?end = i + cs"
        using True by simp
      have m: "nat (?len - (i + cs)) < nat (?len - i)"
        using less.prems(1) True by linarith
      have nn: "0 \<le> i + cs"
        using less.prems(1,2) by linarith
      have i0: "i + cs \<noteq> 0"
        using less.prems(1,2) by linarith
      from less.hyps [OF m less.prems(1) nn True, of st1]
      obtain chunks err st' rest where
        h1: "chunkLoop cs data fn st1 (i + cs) = Some (err, st')"
        and h2: "sent st' = sent st1 @ chunks"
        and h3: "chunks \<noteq> []"
        and h4: "concat (map Chunk chunks) @ rest = drop (nat (i + cs)) data"
        and h5: "\<forall>q\<in>set chunks. Chunk q \<noteq> [] \<and> int (length (Chunk q)) \<le> cs"
        and h7: "\<forall>q\<in>set (butlast chunks). \<not> IsLast q"
        and h8: "err = None \<longrightarrow> rest = [] \<and> IsLast (last chunks)"
        and h9: "(\<forall>x\<in>set (outcomes st1). x = None) \<longrightarrow> err = None"
        by blast
      have nl: "\<not> IsLast req"
        using True by (simp add: rl)
      have cc: "concat (map Chunk (req # chunks)) @ rest = drop (nat i) data"
        using h4 split [unfolded e] by simp
      have "chunkLoop cs data fn st i = Some (err, st')
           \<and> sent st' = sent st @ (req # chunks)
           \<and> req # chunks \<noteq> []
           \<and> concat (map Chunk (req # chunks)) @ rest = drop (nat i) data
           \<and> (\<forall>q\<in>set (req # chunks). Chunk q \<noteq> [] \<and> int (length (Chunk q)) \<le> cs)
           \<and> Filename (hd (req # chunks)) = (if i = 0 then fn else [])
           \<and> (\<forall>q\<in>set (butlast (req # chunks)). \<not> IsLast q)
           \<and> (err = None \<longrightarrow> rest = [] \<and> IsLast (last (req # chunks)))
           \<and> ((\<forall>x\<in>set (outcomes st). x = None) \<longrightarrow> err = None)"
        using unfold h1 h2 s2 h3 h5 h7 h8 h9 s3' nl ne le rf cc
        by simp
      then show ?thesis by - (intro exI, assumption)
    qed
  qed
qed

lemma only_last_final:
  assumes "chunks \<noteq> []" and "IsLast (last chunks)" and "\<forall>q\<in>set (butlast chunks). \<not> IsLast q"
  shows "filter IsLast chunks = [last chunks]"
proof -
  have "chunks = butlast chunks @ [last chunks]"
    using assms(1) by simp
  then have "filter IsLast chunks = filter IsLast (butlast chunks) @ filter IsLast [last chunks]"
    by (metis filter_append)
  moreover have "filter IsLast (butlast chunks) = []"
    using assms(3) by (simp add: filter_empty_conv)
  ultimately show ?thesis
    using assms(2) by simp
qed

text \<open>
  C1. With a chunk size of at least 1, \<open>sendChunks\<close> returns for every payload and on
  every stream. The messages it has handed to \<open>Send\<close>, in order, are a non-empty list of
  chunks: none is longer than the chunk size, the first carries the filename, none
  before the last is marked final, and their bytes concatenated are an initial part of
  the payload. When \<open>sendChunks\<close> returns \<open>nil\<close>, which it does when every \<open>Send\<close>
  succeeds, the concatenation is the whole payload and exactly one chunk is marked
  final, the last one. For the empty payload the list is the single chunk with no
  bytes, the filename and the final flag.
\<close>

theorem sendChunks_chunking:
  assumes "1 \<le> chunkSize c"
  shows "\<exists>chunks err st' rest. sendChunks c st data filename = Some (err, st')
           \<and> sent st' = sent st @ chunks
           \<and> chunks \<noteq> []
           \<and> concat (map Chunk chunks) @ rest = data
           \<and> (\<forall>q\<in>set chunks. int (length (Chunk q)) \<le> chunkSize c)
           \<and> Filename (hd chunks) = filename
           \<and> (\<forall>q\<in>set (butlast chunks). \<not> IsLast q)
           \<and> (err = None \<longrightarrow>
                 concat (map Chunk chunks) = data \<and> filter IsLast chunks = [last chunks])
           \<and> ((\<forall>x\<in>set (outcomes st). x = None) \<longrightarrow> err = None)
           \<and> (data = [] \<longrightarrow> chunks = [\<lparr>Chunk = [], Filename = filename, IsLast = True\<rparr>])"
proof (cases "data = []")
  case True
  define req where "req = \<lparr>Chunk = [], Filename = filename, IsLast = True\<rparr>"
  from Send_any [of st req]
  obtain r st1 where s1: "Send st req = (r, st1)" and s2: "sent st1 = sent st @ [req]"
    and s3: "(\<forall>x\<in>set (outcomes st). x = None) \<longrightarrow> r = None"
    by blast
  have k1: "sendChunks c st data filename = Some (r, st1)"
    using True s1 by (simp add: sendChunks_def req_def)
  have k3: "[req] \<noteq> []" by simp
  have k4: "concat (map Chunk [req]) @ [] = data"
    using True by (simp add: req_def)
  have k5: "\<forall>q\<in>set [req]. int (length (Chunk q)) \<le> chunkSize c"
    using assms by (simp add: req_def)
  have k6: "Filename (hd [req]) = filename"
    by (simp add: req_def)
  have k7: "\<forall>q\<in>set (butlast [req]). \<not> IsLast q" by simp
  have k8: "r = None \<longrightarrow> concat (map Chunk [req]) = data \<and> filter IsLast [req] = [last [req]]"
    using True by (simp add: req_def)
  have k10: "data = [] \<longrightarrow> [req] = [\<lparr>Chunk = [], Filename = filename, IsLast = True\<rparr>]"
    by (simp add: req_def)
  have "sendChunks c st data filename = Some (r, st1)
           \<and> sent st1 = sent st @ [req]
           \<and> [req] \<noteq> []
           \<and> concat (map Chunk [req]) @ [] = data
           \<and> (\<forall>q\<in>set [req]. int (length (Chunk q)) \<le> chunkSize c)
           \<and> Filename (hd [req]) = filename
           \<and> (\<forall>q\<in>set (butlast [req]). \<not> IsLast q)
           \<and> (r = None \<longrightarrow>
                 concat (map Chunk [req]) = data \<and> filter IsLast [req] = [last [req]])
           \<and> ((\<forall>x\<in>set (outcomes st). x = None) \<longrightarrow> r = None)
           \<and> (data = [] \<longrightarrow> [req] = [\<lparr>Chunk = [], Filename = filename, IsLast = True\<rparr>])"
    by (intro conjI) (rule k1, rule s2, rule k3, rule k4, rule k5, rule k6, rule k7, rule k8,
        rule s3, rule k10)
  then show ?thesis by - (intro exI, assumption)
next
  case False
  then have pos: "0 < int (length data)" by simp
  from chunkLoop_general [OF assms _ pos, of filename st]
  obtain chunks err st' rest where
    h1: "chunkLoop (chunkSize c) data filename st 0 = Some (err, st')"
    and h2: "sent st' = sent st @ chunks"
    and h3: "chunks \<noteq> []"
    and h4: "concat (map Chunk chunks) @ rest = drop (nat 0) data"
    and h5: "\<forall>q\<in>set chunks. Chunk q \<noteq> [] \<and> int (length (Chunk q)) \<le> chunkSize c"
    and h6: "Filename (hd chunks) = (if (0::int) = 0 then filename else [])"
    and h7: "\<forall>q\<in>set (butlast chunks). \<not> IsLast q"
    and h8: "err = None \<longrightarrow> rest = [] \<and> IsLast (last chunks)"
    and h9: "(\<forall>x\<in>set (outcomes st). x = None) \<longrightarrow> err = None"
    by blast
  have k1: "sendChunks c st data filename = Some (err, st')"
    using False h1 by (simp add: sendChunks_def)
  have k4: "concat (map Chunk chunks) @ rest = data"
    using h4 by simp
  have k5: "\<forall>q\<in>set chunks. int (length (Chunk q)) \<le> chunkSize c"
    using h5 by blast
  have k6: "Filename (hd chunks) = filename"
    using h6 by simp
  have k8: "err = None \<longrightarrow>
                 concat (map Chunk chunks) = data \<and> filter IsLast chunks = [last chunks]"
  proof
    assume "err = None"
    with h8 have r: "rest = []" and l: "IsLast (last chunks)" by simp_all
    show "concat (map Chunk chunks) = data \<and> filter IsLast chunks = [last chunks]"
      using k4 r only_last_final [OF h3 l h7] by simp
  qed
  have k10: "data = [] \<longrightarrow> chunks = [\<lparr>Chunk = [], Filename = filename, IsLast = True\<rparr>]"
    using False by simp
  have "sendChunks c st data filename = Some (err, st')
           \<and> sent st' = sent st @ chunks
           \<and> chunks \<noteq> []
           \<and> concat (map Chunk chunks) @ rest = data
           \<and> (\<forall>q\<in>set chunks. int (length (Chunk q)) \<le> chunkSize c)
           \<and> Filename (hd chunks) = filename
           \<and> (\<forall>q\<in>set (butlast chunks). \<not> IsLast q)
           \<and> (err = None \<longrightarrow>
                 concat (map Chunk chunks) = data \<and> filter IsLast chunks = [last chunks])
           \<and> ((\<forall>x\<in>set (outcomes st). x = None) \<longrightarrow> err = None)
           \<and> (data = [] \<longrightarrow> chunks = [\<lparr>Chunk = [], Filename = filename, IsLast = True\<rparr>])"
    by (intro conjI) (rule k1, rule h2, rule h3, rule k4, rule k5, rule k6, rule h7, rule k8,
        rule h9, rule k10)
  then show ?thesis by - (intro exI, assumption)
qed

text \<open>
  The theorem at chunk size 4 and a payload of ten bytes, which is sent as chunks of
  4, 4 and 2 bytes, and at the empty payload.
\<close>

theorem sendChunks_chunking_witness:
  "(let c = (mock_grpc (Inl io_EOF) (Inl io_EOF))\<lparr>chunkSize := 4\<rparr>;
        st = \<lparr>sent = [], outcomes = [None, None]\<rparr>
    in 1 \<le> chunkSize c
       \<and> (\<forall>r\<in>set (outcomes st). r = None)
       \<and> sendChunks c st [1, 2, 3, 4, 5, 6, 7, 8, 9, 10] ''big.bin''
           = Some (None, \<lparr>sent = [\<lparr>Chunk = [1, 2, 3, 4], Filename = ''big.bin'', IsLast = False\<rparr>,
                                  \<lparr>Chunk = [5, 6, 7, 8], Filename = [], IsLast = False\<rparr>,
                                  \<lparr>Chunk = [9, 10], Filename = [], IsLast = True\<rparr>],
                          outcomes = []\<rparr>)
       \<and> sendChunks c st [] ''empty.txt''
           = Some (None, \<lparr>sent = [\<lparr>Chunk = [], Filename = ''empty.txt'', IsLast = True\<rparr>],
                          outcomes = [None]\<rparr>))"
  unfolding Let_def
  using sendChunks_chunking [of "(mock_grpc (Inl io_EOF) (Inl io_EOF))\<lparr>chunkSize := 4\<rparr>"
      "\<lparr>sent = [], outcomes = [None, None]\<rparr>" "[1, 2, 3, 4, 5, 6, 7, 8, 9, 10]" "''big.bin''"]
  by (simp add: mock_grpc_def sendChunks_def chunkLoop.simps Send_def)

section \<open>Properties of the multi-file streaming\<close>






















end
